theory Spec2Isabelle
  imports Complex_Main
begin

section \<open>CaloGAN training script (models/train.py)\<close>

text \<open>
  The script is embedded function by function. Numbers that Python holds as floats
  (losses, energies, weights, time stamps) are real numbers here, so rounding is not
  part of the model; the one place where the script converts text to a float and back
  to an integer (\<open>getLastEpoch\<close>) is modelled with its rounding. Everything the script
  takes from a library (the random generator, the Keras models, the file system) is a
  parameter: a record of operations over an abstract state.
\<close>

subsection \<open>Errors\<close>

datatype py_error =
    Exception string
  | IndexError
  | OverflowError
  | UnboundLocalError
  | ValueError
  | ZeroDivisionError

subsection \<open>The random generator\<close>

text \<open>
  \<open>np.random\<close> is global state. The three samplers the script calls take the state and
  return the drawn array with the next state: \<open>normal m n\<close> is
  \<open>np.random.normal(0, 1, (m, n))\<close>, \<open>randint lo hi n\<close> is
  \<open>np.random.randint(lo, hi, n)\<close> and \<open>uniform lo hi n\<close> is
  \<open>np.random.uniform(lo, hi, n)\<close> (also for the shape \<open>(n, 1)\<close>, held flat).
\<close>

record 'r sampler =
  normal :: "nat \<Rightarrow> nat \<Rightarrow> 'r \<Rightarrow> real list list \<times> 'r"
  randint :: "int \<Rightarrow> int \<Rightarrow> nat \<Rightarrow> 'r \<Rightarrow> int list \<times> 'r"
  uniform :: "real \<Rightarrow> real \<Rightarrow> nat \<Rightarrow> 'r \<Rightarrow> real list \<times> 'r"

subsection \<open>bit_flip\<close>

text \<open>
  \<^verbatim>\<open>
  def bit_flip(x, prob=0.05):
      x = np.array(x)
      selection = np.random.uniform(0, 1, x.shape) < prob
      x[selection] = 1 * np.logical_not(x[selection])
      return x
  \<close>
  An integer array is the list of its entries. \<open>x[selection]\<close> reads the entries
  under a boolean mask, in order; \<open>x[selection] = vs\<close> writes \<open>vs\<close> back to the same
  places, in order.
\<close>

definition logical_not :: "int \<Rightarrow> int" where
  "logical_not v = (if v = 0 then 1 else 0)"

fun mask_get :: "bool list \<Rightarrow> 'a list \<Rightarrow> 'a list" where
  "mask_get (b # bs) (v # vs) = (if b then v # mask_get bs vs else mask_get bs vs)"
| "mask_get _ _ = []"

fun mask_set :: "bool list \<Rightarrow> 'a list \<Rightarrow> 'a list \<Rightarrow> 'a list" where
  "mask_set (True # bs) (v # vs) (n # ns) = n # mask_set bs vs ns"
| "mask_set (b # bs) (v # vs) ns = v # mask_set bs vs ns"
| "mask_set _ vs _ = vs"

definition flip_selected :: "real list \<Rightarrow> real \<Rightarrow> int list \<Rightarrow> int list" where
  "flip_selected us prob x =
     (let selection = map (\<lambda>u. u < prob) us
      in mask_set selection x (map (\<lambda>v. 1 * logical_not v) (mask_get selection x)))"

definition bit_flip :: "'r sampler \<Rightarrow> int list \<Rightarrow> real \<Rightarrow> 'r \<Rightarrow> int list \<times> 'r" where
  "bit_flip S x prob r =
     (let (us, r') = uniform S 0 1 (length x) r
      in (flip_selected us prob x, r'))"

text \<open>
  The same function on an explicit store, where the argument is the address of the
  caller's array: \<open>np.array(x)\<close> allocates a copy, and the masked assignment writes to
  the copy.
\<close>

type_synonym addr = nat

record store =
  arrays :: "addr \<Rightarrow> int list option"
  next_addr :: addr

definition np_array :: "store \<Rightarrow> addr \<Rightarrow> (addr \<times> store) option" where
  "np_array h a =
     (case arrays h a of
        None \<Rightarrow> None
      | Some v \<Rightarrow>
          Some (next_addr h,
                h\<lparr>arrays := (arrays h)(next_addr h \<mapsto> v), next_addr := Suc (next_addr h)\<rparr>))"

definition bit_flip_store ::
  "'r sampler \<Rightarrow> store \<Rightarrow> addr \<Rightarrow> real \<Rightarrow> 'r \<Rightarrow> ((addr \<times> store) \<times> 'r) option" where
  "bit_flip_store S h a prob r =
     (case np_array h a of
        None \<Rightarrow> None
      | Some (x, h1) \<Rightarrow>
          (case arrays h1 x of
             None \<Rightarrow> None
           | Some v \<Rightarrow>
               (let (us, r') = uniform S 0 1 (length v) r
                in Some ((x, h1\<lparr>arrays := (arrays h1)(x \<mapsto> flip_selected us prob v)\<rparr>), r'))))"

definition store_ok :: "store \<Rightarrow> bool" where
  "store_ok h = (\<forall>a. a \<ge> next_addr h \<longrightarrow> arrays h a = None)"

definition half_open_draws :: "'r sampler \<Rightarrow> nat \<Rightarrow> 'r \<Rightarrow> bool" where
  "half_open_draws S n r =
     (length (fst (uniform S 0 1 n r)) = n \<and>
      list_all (\<lambda>u. 0 \<le> u \<and> u < 1) (fst (uniform S 0 1 n r)))"

subsection \<open>Arrays, calls and the Keras models\<close>

text \<open>
  The arrays handed to the models: a batch of calorimeter images of one layer (the
  images themselves are opaque), a float array (shape \<open>(n,)\<close> or \<open>(n, 1)\<close>, held
  flat), the noise matrix, and an integer array of class labels.
\<close>

datatype 'img array =
    ImageArr "'img list"
  | FloatArr "real list"
  | NoiseArr "real list list"
  | IntArr "int list"

datatype model = Generator | Discriminator | Combined

text \<open>
  Every call to a model is recorded: \<open>predict(inputs)\<close> and
  \<open>train_on_batch(inputs, targets, sample_weight)\<close>.
\<close>

datatype 'img call =
    Predict model "'img array list"
  | TrainOnBatch model "'img array list" "'img array list" "'img array list"

text \<open>
  A weight tensor is the list of its rows (what iterating over the array yields), each
  row held flat; a model's weights are the list of its tensors, as \<open>get_weights()\<close>
  returns them. The three models share their parameters, so the networks are one
  state: the generator's and the discriminator's weights and the three optimizer states
  (opaque, of type \<open>'o\<close>).
\<close>

type_synonym tensor = "real list list"
type_synonym weights = "tensor list"

record 'o net =
  generator_weights :: weights
  discriminator_weights :: weights
  generator_optimizer :: 'o
  discriminator_optimizer :: 'o
  combined_optimizer :: 'o

text \<open>
  What the networks compute is a parameter: \<open>predict\<close> returns the output arrays,
  \<open>train_on_batch\<close> returns the list of loss values and the updated networks.
\<close>

record ('o, 'img) keras =
  predict :: "model \<Rightarrow> 'o net \<Rightarrow> 'img array list \<Rightarrow> 'img array list"
  train_on_batch ::
    "model \<Rightarrow> 'o net \<Rightarrow> 'img array list \<Rightarrow> 'img array list \<Rightarrow> 'img array list
       \<Rightarrow> real list \<times> 'o net"

text \<open>
  The file system is an abstract state with the operations the script uses:
  \<open>glob.glob\<close>, \<open>os.path.getctime\<close>, the weights a \<open>.weights\<close> file holds (what
  \<open>load_weights\<close> installs), the optimizer state \<open>np.load\<close> reads, the two ways of
  writing a file, and \<open>os.system\<close>.
\<close>

record ('fs, 'o) os =
  glob :: "'fs \<Rightarrow> string \<Rightarrow> string list"
  getctime :: "'fs \<Rightarrow> string \<Rightarrow> real"
  read_weights :: "'fs \<Rightarrow> string \<Rightarrow> weights"
  np_load :: "'fs \<Rightarrow> string \<Rightarrow> 'o"
  save_weights :: "string \<Rightarrow> weights \<Rightarrow> 'fs \<Rightarrow> 'fs"
  np_save :: "string \<Rightarrow> 'o \<Rightarrow> 'fs \<Rightarrow> 'fs"
  system :: "string \<Rightarrow> 'fs \<Rightarrow> 'fs"

text \<open>
  The state the script works on: the networks, the random generator, the files, and
  the record of the calls made to the models so far.
\<close>

record ('o, 'r, 'img, 'fs) world =
  nets :: "'o net"
  rng :: 'r
  files :: 'fs
  calls :: "'img call list"

subsection \<open>Configuration and data\<close>

text \<open>
  The parsed arguments, with the rank and the number of workers that Horovod reports.
  \<open>batch_size\<close> and \<open>latent_size\<close> are array sizes, so natural numbers.
\<close>

record config =
  nb_epochs :: int
  batch_size :: nat
  latent_size :: nat
  weights_averaging_coeff :: real
  d_pfx :: string
  g_pfx :: string
  c_pfx :: string
  load_model :: bool
  save_model :: bool
  load_weights :: bool
  process0 :: bool
  save_all_epochs :: bool
  no_delete :: bool
  maintain_gen_loss_below :: real
  train_gen_per_epoch :: int
  hvd_rank :: nat
  hvd_size :: nat

text \<open>
  The shuffled data set: the three image arrays, the encoded labels (\<open>y\<close> in the
  script), the energies, and the number of particle classes.
\<close>

record 'img dataset =
  first :: "'img list"
  second :: "'img list"
  third :: "'img list"
  y_labels :: "int list"
  energy :: "real list"
  nb_classes :: nat

text \<open>The slice \<open>xs[i:j]\<close> for \<open>0 \<le> i \<le> j\<close>: it stops at the end of the array.\<close>

definition slice :: "nat \<Rightarrow> nat \<Rightarrow> 'a list \<Rightarrow> 'a list" where
  "slice i j xs = take (j - i) (drop i xs)"

definition np_ones :: "nat \<Rightarrow> real list" where
  "np_ones n = replicate n 1"

definition np_zeros :: "nat \<Rightarrow> real list" where
  "np_zeros n = replicate n 0"

subsection \<open>Loss arithmetic\<close>

text \<open>
  \<open>np.mean(rows, axis=0)\<close> on a list of loss vectors: the mean of an empty list is the
  scalar \<open>nan\<close> (with a warning), rows of one length give the vector of column means,
  rows of different lengths are refused.
\<close>

datatype ndarray = NanScalar | Vector "real list"

definition np_mean_axis0 :: "real list list \<Rightarrow> py_error + ndarray" where
  "np_mean_axis0 rows =
     (if rows = [] then Inr NanScalar
      else if list_all (\<lambda>row. length row = length (hd rows)) rows
      then Inr (Vector (map (\<lambda>j. sum_list (map (\<lambda>row. row ! j) rows) / real (length rows))
                          [0..<length (hd rows)]))
      else Inl ValueError)"

text \<open>
  The same mean over the per-step generator means, which are themselves either
  vectors or the scalar \<open>nan\<close>; a mean over \<open>nan\<close> scalars is \<open>nan\<close>.
\<close>

fun vector_rows :: "ndarray list \<Rightarrow> real list list option" where
  "vector_rows [] = Some []"
| "vector_rows (Vector v # ms) = map_option ((#) v) (vector_rows ms)"
| "vector_rows (NanScalar # ms) = None"

definition np_mean_arrays :: "ndarray list \<Rightarrow> py_error + ndarray" where
  "np_mean_arrays ms =
     (if list_all (\<lambda>m. m = NanScalar) ms then Inr NanScalar
      else case vector_rows ms of
             None \<Rightarrow> Inl ValueError
           | Some rows \<Rightarrow> np_mean_axis0 rows)"

text \<open>Indexing \<open>a[0]\<close>: a scalar cannot be indexed, and an empty vector has no entry 0.\<close>

fun item0 :: "ndarray \<Rightarrow> py_error + real" where
  "item0 NanScalar = Inl IndexError"
| "item0 (Vector []) = Inl IndexError"
| "item0 (Vector (x # xs)) = Inr x"

text \<open>
  \<open>np.array(a) + np.array(b)\<close> on two loss lists: elementwise, a list of length one
  is broadcast, other lengths are refused.
\<close>

definition np_add :: "real list \<Rightarrow> real list \<Rightarrow> py_error + real list" where
  "np_add a b =
     (if length a = length b then Inr (map2 (+) a b)
      else if length a = 1 then Inr (map (\<lambda>x. hd a + x) b)
      else if length b = 1 then Inr (map (\<lambda>x. x + hd b) a)
      else Inl ValueError)"

subsection \<open>One training step\<close>

text \<open>
  The module-level variables that \<open>train_gan\<close> reads, and the local variables of
  \<open>train_gan\<close> that live across the steps of an epoch. \<open>real_batch_loss\<close> and
  \<open>fake_batch_loss\<close> are unbound (\<open>None\<close>) until the discriminator has been trained
  once in this call.
\<close>

record globals =
  last_epoch_gen_loss :: "real option"
  last_epoch_disc_loss :: "real option"

record locals =
  real_batch_loss :: "real list option"
  fake_batch_loss :: "real list option"
  epoch_gen_loss :: "ndarray list"
  epoch_disc_loss :: "real list list"

text \<open>
  The condition of line 525:
  \<^verbatim>\<open>(last_epoch_gen_loss is None) or (last_epoch_gen_loss < maintain_gen_loss_below) or (epoch < 10)\<close>
\<close>

definition gate :: "real option \<Rightarrow> real \<Rightarrow> int \<Rightarrow> bool" where
  "gate last_gen_loss limit epoch =
     (case last_gen_loss of
        None \<Rightarrow> True
      | Some l \<Rightarrow> l < limit \<or> epoch < 10)"

text \<open>The targets and sample weights of lines 513 to 523 and 558 to 564.\<close>

definition class_part :: "nat \<Rightarrow> 'a list \<Rightarrow> 'a list" where
  "class_part C xs = (if C > 1 then xs else [])"

definition loss_weights :: "nat \<Rightarrow> nat \<Rightarrow> 'img array list" where
  "loss_weights C bs =
     [FloatArr (np_ones bs), FloatArr (map (\<lambda>x. 0.05 * x) (np_ones bs))]
     @ class_part C [FloatArr (map (\<lambda>x. 0.2 * x) (np_ones bs))]"

text \<open>
  The generator updates of one step (lines 554 to 570): \<open>n\<close> more rounds, each with
  fresh noise, energies and (with more than one class) labels.
\<close>

fun generator_updates ::
  "('o, 'img) keras \<Rightarrow> 'r sampler \<Rightarrow> config \<Rightarrow> nat \<Rightarrow> nat
     \<Rightarrow> real list list \<Rightarrow> ('o, 'r, 'img, 'fs) world \<Rightarrow> real list list \<times> ('o, 'r, 'img, 'fs) world" where
  "generator_updates K S cfg C 0 gen_losses w = (gen_losses, w)"
| "generator_updates K S cfg C (Suc n) gen_losses w =
     (let bs = batch_size cfg;
          trick = np_ones bs;
          (noise, r1) = normal S bs (latent_size cfg) (rng w);
          (sampled_energies, r2) = uniform S 1 100 bs r1;
          (sampled_labels, r3) = (if C > 1 then randint S 0 (int C) bs r2 else ([], r2));
          combined_inputs =
            [NoiseArr noise, FloatArr sampled_energies] @ class_part C [IntArr sampled_labels];
          combined_outputs =
            [FloatArr trick, FloatArr sampled_energies] @ class_part C [IntArr sampled_labels];
          (l, nets') =
            train_on_batch K Combined (nets w) combined_inputs combined_outputs
              (loss_weights C bs)
      in generator_updates K S cfg C n (gen_losses @ [l])
           (w\<lparr>nets := nets', rng := r3,
              calls := calls w
                @ [TrainOnBatch Combined combined_inputs combined_outputs (loss_weights C bs)]\<rparr>))"

text \<open>
  The body of the loop over \<open>index\<close> (lines 490 to 572). The step returns the world it
  leaves behind also when it raises.
\<close>

definition train_step ::
  "('o, 'img) keras \<Rightarrow> 'r sampler \<Rightarrow> config \<Rightarrow> 'img dataset \<Rightarrow> globals \<Rightarrow> int \<Rightarrow> nat
     \<Rightarrow> locals \<Rightarrow> ('o, 'r, 'img, 'fs) world \<Rightarrow> ('o, 'r, 'img, 'fs) world \<times> (py_error + locals)" where
  "train_step K S cfg data g epoch index loc w =
     (let bs = batch_size cfg;
          C = nb_classes data;
          (noise, r1) = normal S bs (latent_size cfg) (rng w);
          image_batch_1 = slice (index * bs) ((index + 1) * bs) (first data);
          image_batch_2 = slice (index * bs) ((index + 1) * bs) (second data);
          image_batch_3 = slice (index * bs) ((index + 1) * bs) (third data);
          label_batch = slice (index * bs) ((index + 1) * bs) (y_labels data);
          energy_batch = slice (index * bs) ((index + 1) * bs) (energy data);
          (sampled_labels, r2) = randint S 0 (int C) bs r1;
          (sampled_energies, r3) = uniform S 1 100 bs r2;
          generator_inputs =
            [NoiseArr noise, FloatArr sampled_energies] @ class_part C [IntArr sampled_labels];
          generated_images = predict K Generator (nets w) generator_inputs;
          (flipped, r4) = (if C > 1 then bit_flip S sampled_labels 0.3 r3 else ([], r3));
          disc_outputs_real =
            [FloatArr (np_ones bs), FloatArr energy_batch] @ class_part C [IntArr label_batch];
          disc_outputs_fake =
            [FloatArr (np_zeros bs), FloatArr sampled_energies] @ class_part C [IntArr flipped];
          w1 = w\<lparr>rng := r4, calls := calls w @ [Predict Generator generator_inputs]\<rparr>;
          real_inputs =
            [ImageArr image_batch_1, ImageArr image_batch_2, ImageArr image_batch_3,
             FloatArr energy_batch];
          fake_inputs = generated_images @ [FloatArr sampled_energies];
          (loc2, w2) =
            (if gate (last_epoch_gen_loss g) (maintain_gen_loss_below cfg) epoch
             then
               (let (rl, n1) =
                      train_on_batch K Discriminator (nets w1) real_inputs disc_outputs_real
                        (loss_weights C bs);
                    (fl, n2) =
                      train_on_batch K Discriminator n1 fake_inputs disc_outputs_fake
                        (loss_weights C bs)
                in (loc\<lparr>real_batch_loss := Some rl, fake_batch_loss := Some fl\<rparr>,
                    w1\<lparr>nets := n2,
                       calls := calls w1
                         @ [TrainOnBatch Discriminator real_inputs disc_outputs_real
                              (loss_weights C bs),
                            TrainOnBatch Discriminator fake_inputs disc_outputs_fake
                              (loss_weights C bs)]\<rparr>))
             else (loc, w1))
      in case (fake_batch_loss loc2, real_batch_loss loc2) of
           (Some fl, Some rl) \<Rightarrow>
             (case np_add fl rl of
                Inl e \<Rightarrow> (w2, Inl e)
              | Inr s \<Rightarrow>
                  (let loc3 = loc2\<lparr>epoch_disc_loss := epoch_disc_loss loc2 @ [map (\<lambda>x. x / 2) s]\<rparr>;
                       (gen_losses, w3) =
                         generator_updates K S cfg C (nat (2 * train_gen_per_epoch cfg)) [] w2
                   in case np_mean_axis0 gen_losses of
                        Inl e \<Rightarrow> (w3, Inl e)
                      | Inr m \<Rightarrow> (w3, Inr (loc3\<lparr>epoch_gen_loss := epoch_gen_loss loc3 @ [m]\<rparr>))))
         | _ \<Rightarrow> (w2, Inl UnboundLocalError))"

subsection \<open>train_gan\<close>

text \<open>The loop \<open>for index in range(nb_batches)\<close>; an exception ends it.\<close>

fun train_steps ::
  "('o, 'img) keras \<Rightarrow> 'r sampler \<Rightarrow> config \<Rightarrow> 'img dataset \<Rightarrow> globals \<Rightarrow> int \<Rightarrow> nat list
     \<Rightarrow> locals \<Rightarrow> ('o, 'r, 'img, 'fs) world \<Rightarrow> ('o, 'r, 'img, 'fs) world \<times> (py_error + locals)" where
  "train_steps K S cfg data g epoch [] loc w = (w, Inr loc)"
| "train_steps K S cfg data g epoch (index # rest) loc w =
     (case train_step K S cfg data g epoch index loc w of
        (w', Inl e) \<Rightarrow> (w', Inl e)
      | (w', Inr loc') \<Rightarrow> train_steps K S cfg data g epoch rest loc' w')"

text \<open>
  The end of \<open>train_gan\<close> (lines 574 to 579) computes the epoch means for the log and
  assigns
  \<^verbatim>\<open>
        last_epoch_disc_loss = np.mean(epoch_disc_loss, axis=0)[0]
        last_epoch_gen_lss = np.mean(epoch_gen_loss, axis=0)[0]
  \<close>
  Both names are assigned inside the function without a \<open>global\<close> declaration, so both
  are local variables of the call; the module-level variables are not written. The
  function returns the globals as they are after the call, and the two locals.
\<close>

record epoch_end =
  last_epoch_disc_loss_local :: real
  last_epoch_gen_lss :: real

definition train_gan ::
  "('o, 'img) keras \<Rightarrow> 'r sampler \<Rightarrow> config \<Rightarrow> 'img dataset \<Rightarrow> globals \<Rightarrow> int \<Rightarrow> int
     \<Rightarrow> ('o, 'r, 'img, 'fs) world \<Rightarrow> ('o, 'r, 'img, 'fs) world \<times> (py_error + globals \<times> epoch_end)" where
  "train_gan K S cfg data g epoch nb_batches w =
     (case train_steps K S cfg data g epoch [0..<nat nb_batches]
             \<lparr>real_batch_loss = None, fake_batch_loss = None,
              epoch_gen_loss = [], epoch_disc_loss = []\<rparr> w of
        (w', Inl e) \<Rightarrow> (w', Inl e)
      | (w', Inr loc) \<Rightarrow>
          (case np_mean_arrays (epoch_gen_loss loc) of
             Inl e \<Rightarrow> (w', Inl e)
           | Inr gen_mean \<Rightarrow>
               (case np_mean_axis0 (epoch_disc_loss loc) of
                  Inl e \<Rightarrow> (w', Inl e)
                | Inr disc_mean \<Rightarrow>
                    (case item0 disc_mean of
                       Inl e \<Rightarrow> (w', Inl e)
                     | Inr d0 \<Rightarrow>
                         (case item0 gen_mean of
                            Inl e \<Rightarrow> (w', Inl e)
                          | Inr g0 \<Rightarrow>
                              (w', Inr (g, \<lparr>last_epoch_disc_loss_local = d0,
                                           last_epoch_gen_lss = g0\<rparr>)))))))"

subsection \<open>Checkpoint file names\<close>

text \<open>
  \<open>'{0}{1:04d}_{2:03d}.weights'.format(pfx, epoch, rank)\<close>: an integer in decimal,
  padded with zeros to the width, the sign first.
\<close>

definition digit_char :: "nat \<Rightarrow> char" where
  "digit_char d = char_of (48 + d)"

function decimal :: "nat \<Rightarrow> string" where
  "decimal n = (if n < 10 then [digit_char n] else decimal (n div 10) @ [digit_char (n mod 10)])"
  by pat_completeness auto
termination
  by (relation "measure (\<lambda>n. n)") auto

declare decimal.simps [simp del]

definition format_d :: "nat \<Rightarrow> int \<Rightarrow> string" where
  "format_d width n =
     (let sign = (if n < 0 then [CHR ''-''] else []);
          ds = decimal (nat \<bar>n\<bar>)
      in sign @ replicate (width - length sign - length ds) CHR ''0'' @ ds)"

definition checkpoint_name :: "string \<Rightarrow> int \<Rightarrow> int \<Rightarrow> string \<Rightarrow> string" where
  "checkpoint_name pfx epoch rank ext = pfx @ format_d 4 epoch @ ''_'' @ format_d 3 rank @ ext"

subsection \<open>The training loop\<close>

text \<open>
  Lines 727 to 757. \<open>nb_batches = int(first.shape[0] / batch_size)\<close> divides two
  non-negative integers and drops the fraction, and raises when \<open>batch_size\<close> is 0.
  After each epoch the weights (and, with \<open>save_model\<close>, the optimizer states) are
  written when this worker is a writer and the epoch is one to keep.
\<close>

definition save_epoch ::
  "('fs, 'o) os \<Rightarrow> config \<Rightarrow> int \<Rightarrow> int \<Rightarrow> ('o, 'r, 'img, 'fs) world
     \<Rightarrow> ('o, 'r, 'img, 'fs) world" where
  "save_epoch OS cfg last_epoch epoch w =
     (if (hvd_rank cfg = 0 \<or> \<not> process0 cfg)
         \<and> (save_all_epochs cfg \<or> epoch = nb_epochs cfg + last_epoch)
      then
        (let rank = int (hvd_rank cfg);
             f1 = save_weights OS (checkpoint_name (g_pfx cfg) epoch rank ''.weights'')
                    (generator_weights (nets w)) (files w);
             f2 = save_weights OS (checkpoint_name (d_pfx cfg) epoch rank ''.weights'')
                    (discriminator_weights (nets w)) f1;
             f3 = (if save_model cfg
                   then
                     np_save OS (checkpoint_name (c_pfx cfg) epoch rank ''.optimizer'')
                       (combined_optimizer (nets w))
                       (np_save OS (checkpoint_name (d_pfx cfg) epoch rank ''.optimizer'')
                          (discriminator_optimizer (nets w))
                          (np_save OS (checkpoint_name (g_pfx cfg) epoch rank ''.optimizer'')
                             (generator_optimizer (nets w)) f2))
                   else f2)
         in w\<lparr>files := f3\<rparr>)
      else w)"

fun epochs ::
  "('o, 'img) keras \<Rightarrow> 'r sampler \<Rightarrow> ('fs, 'o) os \<Rightarrow> config \<Rightarrow> 'img dataset \<Rightarrow> int
     \<Rightarrow> int list \<Rightarrow> globals \<Rightarrow> ('o, 'r, 'img, 'fs) world
     \<Rightarrow> ('o, 'r, 'img, 'fs) world \<times> (py_error + globals)" where
  "epochs K S OS cfg data last_epoch [] g w = (w, Inr g)"
| "epochs K S OS cfg data last_epoch (epoch # rest) g w =
     (if batch_size cfg = 0 then (w, Inl ZeroDivisionError)
      else
        (let nb_batches = int (length (first data) div batch_size cfg)
         in case train_gan K S cfg data g epoch nb_batches w of
              (w', Inl e) \<Rightarrow> (w', Inl e)
            | (w', Inr (g', ends)) \<Rightarrow>
                epochs K S OS cfg data last_epoch rest g' (save_epoch OS cfg last_epoch epoch w')))"

definition training ::
  "('o, 'img) keras \<Rightarrow> 'r sampler \<Rightarrow> ('fs, 'o) os \<Rightarrow> config \<Rightarrow> 'img dataset \<Rightarrow> int
     \<Rightarrow> globals \<Rightarrow> ('o, 'r, 'img, 'fs) world
     \<Rightarrow> ('o, 'r, 'img, 'fs) world \<times> (py_error + globals)" where
  "training K S OS cfg data last_epoch g w =
     epochs K S OS cfg data last_epoch [last_epoch + 1..nb_epochs cfg + last_epoch] g w"

subsection \<open>getLastEpoch\<close>

text \<open>
  \<^verbatim>\<open>
  def getLastEpoch(filenamemask):
      files = glob.glob(filenamemask)
      if len(files)==0:
          return -1
      latest_file = max(files, key=os.path.getctime)
      newstr = ''.join((ch if ch in '0123456789' else ' ') for ch in latest_file)
      listOfNumbers = [float(i) for i in newstr.split()]
      last_epoch = int(listOfNumbers[0])
      return last_epoch
  \<close>
  \<open>max\<close> with a key walks the list and replaces its candidate only by an element with a
  strictly greater key, so among files of equal time the one that \<open>glob\<close> lists first
  stays.
\<close>

definition max_by :: "('a \<Rightarrow> real) \<Rightarrow> 'a \<Rightarrow> 'a list \<Rightarrow> 'a" where
  "max_by key x xs = foldl (\<lambda>best y. if key best < key y then y else best) x xs"

definition is_digit :: "char \<Rightarrow> bool" where
  "is_digit ch = (ch \<in> set ''0123456789'')"

text \<open>
  \<open>str.split()\<close> cuts at runs of white space and drops empty words. The white space of
  ASCII is listed; \<open>newstr\<close> holds digits and blanks only.
\<close>

definition is_space :: "char \<Rightarrow> bool" where
  "is_space ch = (ch \<in> set [CHR '' '', CHR 0x09, CHR 0x0A, CHR 0x0B, CHR 0x0C, CHR 0x0D,
                             CHR 0x1C, CHR 0x1D, CHR 0x1E, CHR 0x1F])"

fun split_from :: "string \<Rightarrow> string \<Rightarrow> string list" where
  "split_from word [] = (if word = [] then [] else [word])"
| "split_from word (ch # rest) =
     (if is_space ch
      then (if word = [] then split_from [] rest else word # split_from [] rest)
      else split_from (word @ [ch]) rest)"

definition py_split :: "string \<Rightarrow> string list" where
  "py_split s = split_from [] s"

text \<open>
  \<open>int(float(i))\<close> on a word of digits. \<open>float\<close> gives the double nearest to the
  number the digits spell, ties going to the even significand of 53 bits, and infinity
  from \<open>2^1024 - 2^970\<close> on; \<open>int\<close> of a finite double is exact and \<open>int\<close> of infinity
  raises \<open>OverflowError\<close>.
\<close>

definition digit_value :: "char \<Rightarrow> int" where
  "digit_value ch = of_char ch - 48"

definition digits_value :: "string \<Rightarrow> int" where
  "digits_value s = foldl (\<lambda>n ch. 10 * n + digit_value ch) 0 s"

function bit_length :: "int \<Rightarrow> nat" where
  "bit_length n = (if n \<le> 0 then 0 else Suc (bit_length (n div 2)))"
  by pat_completeness auto
termination
  by (relation "measure nat") auto

declare bit_length.simps [simp del]

definition round_to_double :: "int \<Rightarrow> int option" where
  "round_to_double n =
     (if n < 2 ^ 53 then Some n
      else
        (let e = bit_length n - 53;
             q = n div 2 ^ e;
             r = n mod 2 ^ e;
             half = 2 ^ (e - 1);
             m = (if half < r \<or> (r = half \<and> odd q) then q + 1 else q)
         in if 2 ^ 1024 \<le> m * 2 ^ e then None else Some (m * 2 ^ e)))"

definition int_of_float :: "string \<Rightarrow> py_error + int" where
  "int_of_float i =
     (case round_to_double (digits_value i) of
        None \<Rightarrow> Inl OverflowError
      | Some v \<Rightarrow> Inr v)"

definition getLastEpoch :: "('fs, 'o) os \<Rightarrow> 'fs \<Rightarrow> string \<Rightarrow> py_error + int" where
  "getLastEpoch OS fs filenamemask =
     (case glob OS fs filenamemask of
        [] \<Rightarrow> Inr (- 1)
      | f # others \<Rightarrow>
          (let latest_file = max_by (getctime OS fs) f others;
               newstr = map (\<lambda>ch. if is_digit ch then ch else CHR '' '') latest_file
           in case py_split newstr of
                [] \<Rightarrow> Inl IndexError
              | i # listOfNumbers \<Rightarrow> int_of_float i))"

text \<open>
  In the words of the specification: the first maximal run of digits of a file name.
\<close>

definition first_digit_run :: "string \<Rightarrow> string" where
  "first_digit_run name = takeWhile is_digit (dropWhile (\<lambda>ch. \<not> is_digit ch) name)"

text \<open>
  Three checkpoints as \<open>glob\<close> may list them, the two later ones with one time stamp.
\<close>

definition tied_files_os :: "(unit, unit) os" where
  "tied_files_os =
     \<lparr>glob = (\<lambda>fs pattern.
                [''g_0003_000.weights'', ''g_0007_000.weights'', ''g_0001_000.weights'']),
      getctime = (\<lambda>fs name. if name = ''g_0001_000.weights'' then 100 else 200),
      read_weights = (\<lambda>fs name. []), np_load = (\<lambda>fs name. ()),
      save_weights = (\<lambda>name ws fs. fs), np_save = (\<lambda>name opt fs. fs),
      system = (\<lambda>cmd fs. fs)\<rparr>"

text \<open>The same three checkpoints, the two older ones with one time stamp.\<close>

definition newest_last_os :: "(unit, unit) os" where
  "newest_last_os =
     \<lparr>glob = (\<lambda>fs pattern.
                [''g_0001_000.weights'', ''g_0007_000.weights'', ''g_0003_000.weights'']),
      getctime = (\<lambda>fs name. if name = ''g_0007_000.weights'' then 200 else 100),
      read_weights = (\<lambda>fs name. []), np_load = (\<lambda>fs name. ()),
      save_weights = (\<lambda>name ws fs. fs), np_save = (\<lambda>name opt fs. fs),
      system = (\<lambda>cmd fs. fs)\<rparr>"

subsection \<open>Resuming from checkpoints\<close>

text \<open>
  Lines 581 to 706. The rank whose files are read is 0 with \<open>--process0\<close> and the
  worker's own rank otherwise. A missing file raises
  \<open>Exception("... file {} not found".format(filename))\<close>.
\<close>

definition rank_to_load :: "config \<Rightarrow> int" where
  "rank_to_load cfg = (if process0 cfg then 0 else int (hvd_rank cfg))"

definition not_found :: "string \<Rightarrow> string \<Rightarrow> py_error" where
  "not_found what filename = Exception (what @ '' file '' @ filename @ '' not found'')"

text \<open>
  Lines 604 to 637: with \<open>load_model\<close> and a discovered epoch, one dummy epoch of one
  batch, then the three optimizer states, then (unless \<open>no_delete\<close>) the removal of
  the optimizer files.
\<close>

definition load_optimizer_states ::
  "('o, 'img) keras \<Rightarrow> 'r sampler \<Rightarrow> ('fs, 'o) os \<Rightarrow> config \<Rightarrow> 'img dataset \<Rightarrow> globals
     \<Rightarrow> int \<Rightarrow> ('o, 'r, 'img, 'fs) world \<Rightarrow> ('o, 'r, 'img, 'fs) world \<times> (py_error + unit)" where
  "load_optimizer_states K S OS cfg data g last_epoch w =
     (if load_model cfg \<and> last_epoch > - 1
      then
        (case train_gan K S cfg data g 0 1 w of
           (w1, Inl e) \<Rightarrow> (w1, Inl e)
         | (w1, Inr done) \<Rightarrow>
             (let gfile = checkpoint_name (g_pfx cfg) last_epoch (rank_to_load cfg) ''.optimizer'';
                  dfile = checkpoint_name (d_pfx cfg) last_epoch (rank_to_load cfg) ''.optimizer'';
                  cfile = checkpoint_name (c_pfx cfg) last_epoch (rank_to_load cfg) ''.optimizer''
              in if glob OS (files w1) gfile = []
                 then (w1, Inl (not_found ''Generator optimizer state'' gfile))
                 else
                   (let w2 = w1\<lparr>nets := (nets w1)
                                \<lparr>generator_optimizer := np_load OS (files w1) gfile\<rparr>\<rparr>
                    in if glob OS (files w2) dfile = []
                       then (w2, Inl (not_found ''Discriminator optimizer state'' dfile))
                       else
                         (let w3 = w2\<lparr>nets := (nets w2)
                                      \<lparr>discriminator_optimizer := np_load OS (files w2) dfile\<rparr>\<rparr>
                          in if glob OS (files w3) cfile = []
                             then (w3, Inl (not_found ''Combined optimizer state'' cfile))
                             else
                               (let w4 = w3\<lparr>nets := (nets w3)
                                            \<lparr>combined_optimizer := np_load OS (files w3) cfile\<rparr>\<rparr>
                                in (if no_delete cfg then w4
                                    else w4\<lparr>files := system OS ''rm -rf *.optimizer'' (files w4)\<rparr>,
                                    Inr ()))))))
      else (w, Inr ()))"

text \<open>
  Weight averaging, lines 668 to 701. The loop over the ranks loads every worker's file
  into the model and collects the weights; the model keeps what was loaded last.
\<close>

fun load_ranks ::
  "('fs, 'o) os \<Rightarrow> 'fs \<Rightarrow> string \<Rightarrow> int \<Rightarrow> nat list \<Rightarrow> weights \<Rightarrow> weights list
     \<Rightarrow> weights \<times> (py_error + weights list)" where
  "load_ranks OS fs pfx last_epoch [] current all_weights = (current, Inr all_weights)"
| "load_ranks OS fs pfx last_epoch (rank # ranks) current all_weights =
     (let filename = checkpoint_name pfx last_epoch (int rank) ''.weights''
      in if glob OS fs filename = []
         then (current, Inl (not_found ''Generator weights'' filename))
         else load_ranks OS fs pfx last_epoch ranks (read_weights OS fs filename)
                (all_weights @ [read_weights OS fs filename]))"

text \<open>
  \<open>zip(*xss)\<close>: the tuples of the entries at one index, up to the shortest list.
\<close>

definition py_zip :: "'a list list \<Rightarrow> 'a list list" where
  "py_zip xss =
     (case xss of
        [] \<Rightarrow> []
      | xs # rest \<Rightarrow>
          map (\<lambda>i. map (\<lambda>ys. ys ! i) xss)
            [0..<foldl (\<lambda>n ys. min n (length ys)) (length xs) rest])"

text \<open>A list comprehension whose elements may raise: the first exception ends it.\<close>

fun collect :: "('e + 'a) list \<Rightarrow> 'e + 'a list" where
  "collect [] = Inr []"
| "collect (Inl e # rs) = Inl e"
| "collect (Inr x # rs) = (case collect rs of Inl e \<Rightarrow> Inl e | Inr xs \<Rightarrow> Inr (x # xs))"

text \<open>
  \<open>np.array(weights_).mean(axis=0)\<close> on the tuple of one row of every worker (the tuple
  is never empty), and \<open>coeff * np.array(mean) + (1.0 - coeff) * np.array(own)\<close>.
\<close>

definition np_mean_row :: "real list list \<Rightarrow> py_error + real list" where
  "np_mean_row rows =
     (case np_mean_axis0 rows of
        Inl e \<Rightarrow> Inl e
      | Inr (Vector v) \<Rightarrow> Inr v
      | Inr NanScalar \<Rightarrow> Inl ValueError)"

definition blend :: "real \<Rightarrow> real list \<Rightarrow> real list \<Rightarrow> py_error + real list" where
  "blend coeff mean_row own_row =
     np_add (map (\<lambda>x. coeff * x) mean_row) (map (\<lambda>x. (1 - coeff) * x) own_row)"

definition averaged_weights :: "real \<Rightarrow> weights list \<Rightarrow> weights \<Rightarrow> py_error + weights" where
  "averaged_weights coeff all_weights this_weights =
     (case collect (map (\<lambda>weights_list_tuple.
                           collect (map np_mean_row (py_zip weights_list_tuple)))
                      (py_zip all_weights)) of
        Inl e \<Rightarrow> Inl e
      | Inr new_weights \<Rightarrow>
          collect (map (\<lambda>(new_tensor, this_tensor).
                          collect (map (\<lambda>(mean_row, own_row). blend coeff mean_row own_row)
                                     (zip new_tensor this_tensor)))
                     (zip new_weights this_weights)))"

definition average_model ::
  "('fs, 'o) os \<Rightarrow> 'fs \<Rightarrow> real \<Rightarrow> string \<Rightarrow> int \<Rightarrow> nat \<Rightarrow> weights
     \<Rightarrow> weights \<times> (py_error + unit)" where
  "average_model OS fs coeff pfx last_epoch workers this_weights =
     (case load_ranks OS fs pfx last_epoch [0..<workers] this_weights [] of
        (current, Inl e) \<Rightarrow> (current, Inl e)
      | (current, Inr all_weights) \<Rightarrow>
          (case averaged_weights coeff all_weights this_weights of
             Inl e \<Rightarrow> (current, Inl e)
           | Inr weights_to_load \<Rightarrow> (weights_to_load, Inr ())))"

text \<open>
  Lines 645 to 706: the weights of the generator and of the discriminator for the target
  epoch, the averaging when the coefficient is not 0, and (unless \<open>no_delete\<close>) the
  removal of the weights files. Without \<open>load_model\<close> the target epoch is read again,
  from the files of all ranks.
\<close>

definition load_checkpoint_weights ::
  "('fs, 'o) os \<Rightarrow> config \<Rightarrow> int \<Rightarrow> ('o, 'r, 'img, 'fs) world
     \<Rightarrow> ('o, 'r, 'img, 'fs) world \<times> (py_error + int)" where
  "load_checkpoint_weights OS cfg last_epoch w =
     (if (load_weights cfg \<or> load_model cfg) \<and> last_epoch > - 1
      then
        (case (if \<not> load_model cfg
               then getLastEpoch OS (files w) (d_pfx cfg @ ''*.weights'')
               else Inr last_epoch) of
           Inl e \<Rightarrow> (w, Inl e)
         | Inr target \<Rightarrow>
             (let gfile = checkpoint_name (g_pfx cfg) target (rank_to_load cfg) ''.weights'';
                  dfile = checkpoint_name (d_pfx cfg) target (rank_to_load cfg) ''.weights''
              in if glob OS (files w) gfile = []
                 then (w, Inl (not_found ''Generator weights'' gfile))
                 else
                   (let w1 = w\<lparr>nets := (nets w)
                               \<lparr>generator_weights := read_weights OS (files w) gfile\<rparr>\<rparr>
                    in if glob OS (files w1) dfile = []
                       then (w1, Inl (not_found ''Generator weights'' dfile))
                       else
                         (let w2 = w1\<lparr>nets := (nets w1)
                                      \<lparr>discriminator_weights := read_weights OS (files w1) dfile\<rparr>\<rparr>;
                              (w4, averaged) =
                                (if weights_averaging_coeff cfg \<noteq> 0
                                 then
                                   (case average_model OS (files w2) (weights_averaging_coeff cfg)
                                           (g_pfx cfg) target (hvd_size cfg)
                                           (generator_weights (nets w2)) of
                                      (gw, Inl e) \<Rightarrow>
                                        (w2\<lparr>nets := (nets w2)\<lparr>generator_weights := gw\<rparr>\<rparr>, Inl e)
                                    | (gw, Inr ok) \<Rightarrow>
                                        (let w3 = w2\<lparr>nets := (nets w2)\<lparr>generator_weights := gw\<rparr>\<rparr>
                                         in case average_model OS (files w3)
                                                   (weights_averaging_coeff cfg) (d_pfx cfg) target
                                                   (hvd_size cfg) (discriminator_weights (nets w3)) of
                                              (dw, res) \<Rightarrow>
                                                (w3\<lparr>nets := (nets w3)
                                                      \<lparr>discriminator_weights := dw\<rparr>\<rparr>, res)))
                                 else (w2, Inr ()))
                          in case averaged of
                               Inl e \<Rightarrow> (w4, Inl e)
                             | Inr ok \<Rightarrow>
                                 (if no_delete cfg then w4
                                  else w4\<lparr>files := system OS ''rm -rf *.weights'' (files w4)\<rparr>,
                                  Inr target)))))
      else (w, Inr last_epoch))"

definition resume ::
  "('o, 'img) keras \<Rightarrow> 'r sampler \<Rightarrow> ('fs, 'o) os \<Rightarrow> config \<Rightarrow> 'img dataset \<Rightarrow> globals
     \<Rightarrow> ('o, 'r, 'img, 'fs) world \<Rightarrow> ('o, 'r, 'img, 'fs) world \<times> (py_error + int)" where
  "resume K S OS cfg data g w =
     (case (if load_model cfg
            then getLastEpoch OS (files w)
                   (c_pfx cfg @ ''*_'' @ format_d 3 (rank_to_load cfg) @ ''.optimizer'')
            else Inr (- 1)) of
        Inl e \<Rightarrow> (w, Inl e)
      | Inr last_epoch \<Rightarrow>
          (case load_optimizer_states K S OS cfg data g last_epoch w of
             (w1, Inl e) \<Rightarrow> (w1, Inl e)
           | (w1, Inr done) \<Rightarrow>
               (case (if load_weights cfg \<and> \<not> load_model cfg
                      then getLastEpoch OS (files w1)
                             (d_pfx cfg @ ''*_'' @ format_d 3 (rank_to_load cfg) @ ''.weights'')
                      else Inr last_epoch) of
                  Inl e \<Rightarrow> (w1, Inl e)
                | Inr last_epoch' \<Rightarrow> load_checkpoint_weights OS cfg last_epoch' w1)))"

text \<open>The script from line 470 on: the resume, then the training loop.\<close>

definition run ::
  "('o, 'img) keras \<Rightarrow> 'r sampler \<Rightarrow> ('fs, 'o) os \<Rightarrow> config \<Rightarrow> 'img dataset
     \<Rightarrow> ('o, 'r, 'img, 'fs) world \<Rightarrow> ('o, 'r, 'img, 'fs) world \<times> (py_error + globals)" where
  "run K S OS cfg data w =
     (let g = \<lparr>last_epoch_gen_loss = None, last_epoch_disc_loss = None\<rparr>
      in case resume K S OS cfg data g w of
           (w1, Inl e) \<Rightarrow> (w1, Inl e)
         | (w1, Inr last_epoch) \<Rightarrow> training K S OS cfg data last_epoch g w1)"

text \<open>\<open>contains part whole\<close>: the text \<open>part\<close> occurs in the text \<open>whole\<close>.\<close>

fun starts_with :: "'a list \<Rightarrow> 'a list \<Rightarrow> bool" where
  "starts_with [] whole = True"
| "starts_with (p # part) [] = False"
| "starts_with (p # part) (x # whole) = (p = x \<and> starts_with part whole)"

fun contains :: "'a list \<Rightarrow> 'a list \<Rightarrow> bool" where
  "contains part [] = (part = [])"
| "contains part (x # whole) = (starts_with part (x # whole) \<or> contains part whole)"

text \<open>
  In the words of the specification: the elementwise arithmetic mean of the weights of
  all workers, and weights of one shape.
\<close>

definition elementwise_mean :: "weights list \<Rightarrow> weights" where
  "elementwise_mean ws =
     map (\<lambda>t. map (\<lambda>i. map (\<lambda>j. sum_list (map (\<lambda>w. w ! t ! i ! j) ws) / real (length ws))
                          [0..<length (hd ws ! t ! i)])
                [0..<length (hd ws ! t)])
       [0..<length (hd ws)]"

definition same_shape :: "weights \<Rightarrow> weights \<Rightarrow> bool" where
  "same_shape a b = list_all2 (list_all2 (\<lambda>r s. length r = length s)) a b"

subsection \<open>Reading the record of calls\<close>

definition discriminator_update :: "'img call \<Rightarrow> bool" where
  "discriminator_update c =
     (case c of TrainOnBatch Discriminator _ _ _ \<Rightarrow> True | _ \<Rightarrow> False)"

definition generator_call :: "'img call \<Rightarrow> bool" where
  "generator_call c =
     (case c of
        Predict Generator _ \<Rightarrow> True
      | TrainOnBatch Combined _ _ _ \<Rightarrow> True
      | _ \<Rightarrow> False)"

definition generator_predict :: "'img call \<Rightarrow> bool" where
  "generator_predict c = (case c of Predict Generator _ \<Rightarrow> True | _ \<Rightarrow> False)"

definition sample_weight :: "'img call \<Rightarrow> 'img array list option" where
  "sample_weight c = (case c of TrainOnBatch _ _ _ sw \<Rightarrow> Some sw | Predict _ _ \<Rightarrow> None)"

text \<open>The calls a step adds to the record.\<close>

definition step_calls ::
  "('o, 'img) keras \<Rightarrow> 'r sampler \<Rightarrow> config \<Rightarrow> 'img dataset \<Rightarrow> globals \<Rightarrow> int \<Rightarrow> nat
     \<Rightarrow> locals \<Rightarrow> ('o, 'r, 'img, 'fs) world \<Rightarrow> 'img call list" where
  "step_calls K S cfg data g epoch index loc w =
     drop (length (calls w)) (calls (fst (train_step K S cfg data g epoch index loc w)))"

text \<open>
  The shape of a trick update of the combined model on batches of size \<open>bs\<close> with \<open>C\<close>
  classes: the targets are all ones for the realism output, the energies that were
  requested in the inputs, and (with more than one class) the labels that were
  requested in the inputs, unchanged.
\<close>

definition trick_call :: "nat \<Rightarrow> nat \<Rightarrow> 'img call \<Rightarrow> bool" where
  "trick_call C bs c =
     (\<exists>noise e ls.
        c = TrainOnBatch Combined
              ([NoiseArr noise, FloatArr e] @ class_part C [IntArr ls])
              ([FloatArr (np_ones bs), FloatArr e] @ class_part C [IntArr ls])
              (loss_weights C bs))"

definition call_inputs :: "'img call \<Rightarrow> 'img array list" where
  "call_inputs c = (case c of Predict _ ins \<Rightarrow> ins | TrainOnBatch _ ins _ _ \<Rightarrow> ins)"

text \<open>
  A compiled Keras model reports the same number of loss values at every call:
  \<open>fixed_loss_length K k\<close> says that every loss list the models return has \<open>k\<close> entries.
\<close>

definition fixed_loss_length :: "('o, 'img) keras \<Rightarrow> nat \<Rightarrow> bool" where
  "fixed_loss_length K k =
     (\<forall>m n ins outs sw. length (fst (train_on_batch K m n ins outs sw)) = k)"

subsection \<open>A small run\<close>

text \<open>
  Concrete inputs on which the functions above are evaluated: the script's default
  arguments with \<open>batch_size = 4\<close>, \<open>latent_size = 8\<close> and one epoch, eight events of
  two classes, a random generator that always draws the low end of the range, and
  models that predict nothing and report the losses 3, 1 and 2.
\<close>

definition example_config :: config where
  "example_config =
     \<lparr>nb_epochs = 1, batch_size = 4, latent_size = 8, weights_averaging_coeff = 0,
      d_pfx = ''params_discriminator_epoch_'', g_pfx = ''params_generator_epoch_'',
      c_pfx = ''params_combined_epoch_'', load_model = False, save_model = False,
      load_weights = False, process0 = False, save_all_epochs = False, no_delete = False,
      maintain_gen_loss_below = 1000, train_gen_per_epoch = 1, hvd_rank = 0, hvd_size = 1\<rparr>"

definition example_data :: "nat dataset" where
  "example_data =
     \<lparr>first = [0, 1, 2, 3, 4, 5, 6, 7], second = [10, 11, 12, 13, 14, 15, 16, 17],
      third = [20, 21, 22, 23, 24, 25, 26, 27], y_labels = [0, 1, 1, 0, 1, 0, 0, 1],
      energy = [5, 10, 15, 20, 25, 30, 35, 40], nb_classes = 2\<rparr>"

definition example_sampler :: "nat sampler" where
  "example_sampler =
     \<lparr>normal = (\<lambda>m n r. (replicate m (replicate n 0), Suc r)),
      randint = (\<lambda>lo hi n r. (replicate n lo, Suc r)),
      uniform = (\<lambda>lo hi n r. (replicate n lo, Suc r))\<rparr>"

definition example_keras :: "(unit, nat) keras" where
  "example_keras =
     \<lparr>predict = (\<lambda>m n ins. []),
      train_on_batch = (\<lambda>m n ins outs sw. ([3, 1, 2], n))\<rparr>"

definition example_os :: "(unit, unit) os" where
  "example_os =
     \<lparr>glob = (\<lambda>fs pattern. []), getctime = (\<lambda>fs name. 0), read_weights = (\<lambda>fs name. []),
      np_load = (\<lambda>fs name. ()), save_weights = (\<lambda>name ws fs. fs),
      np_save = (\<lambda>name opt fs. fs), system = (\<lambda>cmd fs. fs)\<rparr>"

definition example_world :: "(unit, nat, nat, unit) world" where
  "example_world =
     \<lparr>nets = \<lparr>generator_weights = [], discriminator_weights = [], generator_optimizer = (),
               discriminator_optimizer = (), combined_optimizer = ()\<rparr>,
      rng = 0, files = (), calls = []\<rparr>"

definition fresh_locals :: locals where
  "fresh_locals =
     \<lparr>real_batch_loss = None, fake_batch_loss = None, epoch_gen_loss = [], epoch_disc_loss = []\<rparr>"

text \<open>
  Two directories for a resume. In the first only the combined model's optimizer state
  of epoch 7 is there. In the second, rank 0 has its weights of epoch 7 and its
  generator weights of epoch 9, and rank 1 has both of its weights of epoch 9, the
  discriminator's being the newest file.
\<close>

definition optimizer_only_os :: "(unit, unit) os" where
  "optimizer_only_os =
     \<lparr>glob = (\<lambda>fs pattern.
                if pattern = ''params_combined_epoch_*_000.optimizer''
                   \<or> pattern = ''params_combined_epoch_0007_000.optimizer''
                then [''params_combined_epoch_0007_000.optimizer''] else []),
      getctime = (\<lambda>fs name. 100),
      read_weights = (\<lambda>fs name. []), np_load = (\<lambda>fs name. ()),
      save_weights = (\<lambda>name ws fs. fs), np_save = (\<lambda>name opt fs. fs),
      system = (\<lambda>cmd fs. fs)\<rparr>"

definition stale_rank_os :: "(unit, unit) os" where
  "stale_rank_os =
     \<lparr>glob = (\<lambda>fs pattern.
                if pattern = ''params_discriminator_epoch_*_000.weights''
                then [''params_discriminator_epoch_0007_000.weights'']
                else if pattern = ''params_discriminator_epoch_*.weights''
                then [''params_discriminator_epoch_0007_000.weights'',
                      ''params_discriminator_epoch_0009_001.weights'']
                else if pattern \<in> set [''params_discriminator_epoch_0007_000.weights'',
                                        ''params_generator_epoch_0007_000.weights'',
                                        ''params_generator_epoch_0009_000.weights'',
                                        ''params_generator_epoch_0009_001.weights'',
                                        ''params_discriminator_epoch_0009_001.weights'']
                then [pattern] else []),
      getctime = (\<lambda>fs name.
                    if name = ''params_discriminator_epoch_0009_001.weights'' then 300 else 200),
      read_weights = (\<lambda>fs name. []), np_load = (\<lambda>fs name. ()),
      save_weights = (\<lambda>name ws fs. fs), np_save = (\<lambda>name opt fs. fs),
      system = (\<lambda>cmd fs. fs)\<rparr>"

text \<open>
  A directory with the weights of two workers for epoch 7: a generator with a 2 by 2
  tensor and a one-entry tensor, a discriminator with a one-entry tensor.
\<close>

definition two_worker_os :: "(unit, unit) os" where
  "two_worker_os =
     \<lparr>glob = (\<lambda>fs pattern.
                if pattern = ''params_discriminator_epoch_*.weights''
                then [''params_discriminator_epoch_0007_000.weights'',
                      ''params_discriminator_epoch_0007_001.weights'']
                else if pattern = ''params_discriminator_epoch_*_000.weights''
                then [''params_discriminator_epoch_0007_000.weights'']
                else if pattern \<in> set [''params_discriminator_epoch_0007_000.weights'',
                                        ''params_discriminator_epoch_0007_001.weights'',
                                        ''params_generator_epoch_0007_000.weights'',
                                        ''params_generator_epoch_0007_001.weights'']
                then [pattern] else []),
      getctime = (\<lambda>fs name. 100),
      read_weights = (\<lambda>fs name.
                if name = ''params_generator_epoch_0007_000.weights''
                then [[[1, 2], [3, 4]], [[10]]]
                else if name = ''params_generator_epoch_0007_001.weights''
                then [[[3, 4], [5, 6]], [[20]]]
                else if name = ''params_discriminator_epoch_0007_000.weights''
                then [[[0]]]
                else if name = ''params_discriminator_epoch_0007_001.weights''
                then [[[2]]]
                else []),
      np_load = (\<lambda>fs name. ()),
      save_weights = (\<lambda>name ws fs. fs), np_save = (\<lambda>name opt fs. fs),
      system = (\<lambda>cmd fs. fs)\<rparr>"

section \<open>Properties\<close>

subsection \<open>bit_flip\<close>

lemma mask_none:
  "list_all (\<lambda>b. \<not> b) bs \<Longrightarrow> mask_set bs x ns = x"
  by (induction bs x ns rule: mask_set.induct) simp_all

lemma mask_all:
  "length bs = length x \<Longrightarrow> list_all (\<lambda>b. b) bs \<Longrightarrow>
     mask_set bs x (map f (mask_get bs x)) = map f x"
proof (induction bs arbitrary: x)
  case Nil
  then show ?case by simp
next
  case (Cons b bs)
  then obtain v vs where x: "x = v # vs" by (cases x) auto
  with Cons show ?case by simp
qed

lemma flip_selected_elementwise:
  "length us = length x \<Longrightarrow>
     flip_selected us prob x = map2 (\<lambda>u v. if u < prob then logical_not v else v) us x"
proof (induction us arbitrary: x)
  case Nil
  then show ?case by (simp add: flip_selected_def)
next
  case (Cons u us)
  then obtain v vs where x: "x = v # vs" by (cases x) auto
  with Cons have "length us = length vs" by simp
  from Cons.IH [OF this] show ?case
    by (simp add: flip_selected_def x Let_def)
qed

lemma flip_selected_never:
  assumes "list_all (\<lambda>u. prob \<le> u) us"
  shows "flip_selected us prob x = x"
proof -
  from assms have "list_all (\<lambda>b. \<not> b) (map (\<lambda>u. u < prob) us)"
    by (induction us) (simp_all add: not_less)
  then show ?thesis
    by (simp add: flip_selected_def mask_none)
qed

lemma flip_selected_always:
  assumes "length us = length x" and "list_all (\<lambda>u. u < prob) us"
  shows "flip_selected us prob x = map logical_not x"
proof -
  from assms(2) have "list_all (\<lambda>b. b) (map (\<lambda>u. u < prob) us)"
    by (induction us) simp_all
  with assms(1) show ?thesis
    by (simp add: flip_selected_def mask_all)
qed

lemma logical_not_indicator:
  "list_all (\<lambda>v. v = 0 \<or> v = 1) x \<Longrightarrow> map logical_not x = map (\<lambda>v. 1 - v) x"
  by (induction x) (auto simp: logical_not_def)

text \<open>
  C6. On an array of zeros and ones, whatever \<open>np.random.uniform(0, 1, x.shape)\<close>
  draws from the half-open interval from 0 to 1, \<open>bit_flip(x, 0)\<close> returns the entries
  of \<open>x\<close> unchanged and \<open>bit_flip(x, 1)\<close> returns every entry negated (0 for 1, 1 for 0).
\<close>

theorem bit_flip_extremes:
  assumes "half_open_draws S (length x) r"
    and "list_all (\<lambda>v. v = 0 \<or> v = 1) x"
  shows "fst (bit_flip S x 0 r) = x \<and> fst (bit_flip S x 1 r) = map (\<lambda>v. 1 - v) x"
proof -
  obtain us r' where draw: "uniform S 0 1 (length x) r = (us, r')"
    by (cases "uniform S 0 1 (length x) r")
  with assms(1) have len: "length us = length x"
    and range: "list_all (\<lambda>u. 0 \<le> u \<and> u < 1) us"
    by (simp_all add: half_open_draws_def)
  from range have "list_all (\<lambda>u. 0 \<le> u) us" and "list_all (\<lambda>u. u < 1) us"
    by (simp_all add: list_all_iff)
  then have "flip_selected us 0 x = x" and "flip_selected us 1 x = map logical_not x"
    using len by (simp_all add: flip_selected_never flip_selected_always)
  with assms(2) draw show ?thesis
    by (simp add: bit_flip_def logical_not_indicator)
qed

theorem bit_flip_extremes_witness:
  "half_open_draws \<lparr>normal = (\<lambda>m n r. ([], r)), randint = (\<lambda>lo hi n r. ([], r)),
                     uniform = (\<lambda>lo hi n r. (replicate n (lo + (hi - lo) / 4), r))\<rparr>
     (length [1, 0, 0, 1 :: int]) (0 :: nat)
   \<and> list_all (\<lambda>v. v = 0 \<or> v = 1) [1, 0, 0, 1 :: int]
   \<and> fst (bit_flip \<lparr>normal = (\<lambda>m n r. ([], r)), randint = (\<lambda>lo hi n r. ([], r)),
                     uniform = (\<lambda>lo hi n r. (replicate n (lo + (hi - lo) / 4), r))\<rparr>
             [1, 0, 0, 1] 0 (0 :: nat)) = [1, 0, 0, 1]
   \<and> fst (bit_flip \<lparr>normal = (\<lambda>m n r. ([], r)), randint = (\<lambda>lo hi n r. ([], r)),
                     uniform = (\<lambda>lo hi n r. (replicate n (lo + (hi - lo) / 4), r))\<rparr>
             [1, 0, 0, 1] 1 (0 :: nat)) = [0, 1, 1, 0]"
proof -
  let ?S = "\<lparr>normal = (\<lambda>m n r. ([], r)), randint = (\<lambda>lo hi n r. ([], r)),
             uniform = (\<lambda>lo hi n r. (replicate n (lo + (hi - lo) / 4), r))\<rparr>
            :: nat sampler"
  have h1: "half_open_draws ?S (length [1, 0, 0, 1 :: int]) 0"
    by (simp add: half_open_draws_def)
  have h2: "list_all (\<lambda>v. v = 0 \<or> v = 1) [1, 0, 0, 1 :: int]"
    by simp
  from bit_flip_extremes [OF h1 h2] h1 h2 show ?thesis
    by simp
qed

subsection \<open>bit_flip on the store\<close>

text \<open>
  C10. \<open>bit_flip\<close> leaves the caller's array as it was: for every array and every
  probability the call returns the address of a new array, the array at the
  argument's address (and at every other address that was in use) holds the values it
  held before, and the new array holds the result.
\<close>

theorem bit_flip_store_frame:
  assumes "store_ok h" and "arrays h a = Some v"
  shows "\<exists>x h' r'. bit_flip_store S h a prob r = Some ((x, h'), r')
           \<and> x \<noteq> a
           \<and> arrays h' a = Some v
           \<and> (\<forall>b. b \<noteq> x \<longrightarrow> arrays h' b = arrays h b)
           \<and> arrays h' x = Some (fst (bit_flip S v prob r))"
proof -
  from assms have fresh: "next_addr h \<noteq> a"
    by (auto simp: store_ok_def)
  obtain us r' where draw: "uniform S 0 1 (length v) r = (us, r')"
    by (cases "uniform S 0 1 (length v) r")
  with assms(2) fresh show ?thesis
    by (simp add: bit_flip_store_def np_array_def bit_flip_def)
qed

theorem bit_flip_store_frame_witness:
  "store_ok \<lparr>arrays = [0 \<mapsto> [1, 0, 1]], next_addr = 1\<rparr>
   \<and> arrays \<lparr>arrays = [0 \<mapsto> [1, 0, 1]], next_addr = 1\<rparr> 0 = Some [1, 0, 1]
   \<and> (\<exists>x h' r'.
        bit_flip_store \<lparr>normal = (\<lambda>m n r. ([], r)), randint = (\<lambda>lo hi n r. ([], r)),
                         uniform = (\<lambda>lo hi n r. (replicate n (lo + (hi - lo) / 4), r))\<rparr>
          \<lparr>arrays = [0 \<mapsto> [1, 0, 1]], next_addr = 1\<rparr> 0 (1 / 2) (0 :: nat)
          = Some ((x, h'), r')
        \<and> x \<noteq> 0 \<and> arrays h' 0 = Some [1, 0, 1] \<and> arrays h' x = Some [0, 1, 0])"
proof -
  let ?S = "\<lparr>normal = (\<lambda>m n r. ([], r)), randint = (\<lambda>lo hi n r. ([], r)),
             uniform = (\<lambda>lo hi n r. (replicate n (lo + (hi - lo) / 4), r))\<rparr>
            :: nat sampler"
  let ?h = "\<lparr>arrays = [0 \<mapsto> [1, 0, 1]], next_addr = 1\<rparr>"
  have h1: "store_ok ?h"
    by (simp add: store_ok_def)
  have h2: "arrays ?h 0 = Some [1, 0, 1]"
    by simp
  have v: "fst (bit_flip ?S [1, 0, 1] (1 / 2) 0) = [0, 1, 0]"
    by (simp add: bit_flip_def flip_selected_def logical_not_def)
  from bit_flip_store_frame [OF h1 h2, of ?S "1 / 2" 0] h1 h2 v show ?thesis
    by auto
qed

subsection \<open>The calls of a training step\<close>

lemma generator_updates_calls:
  "\<exists>cs. calls (snd (generator_updates K S cfg C n gl w)) = calls w @ cs
        \<and> length cs = n \<and> list_all (trick_call C (batch_size cfg)) cs"
proof (induction n arbitrary: gl w)
  case 0
  then show ?case by simp
next
  case (Suc n)
  obtain noise r1 where d1: "normal S (batch_size cfg) (latent_size cfg) (rng w) = (noise, r1)"
    by (cases "normal S (batch_size cfg) (latent_size cfg) (rng w)")
  obtain e r2 where d2: "uniform S 1 100 (batch_size cfg) r1 = (e, r2)"
    by (cases "uniform S 1 100 (batch_size cfg) r1")
  obtain ls r3 where d3:
    "(if C > 1 then randint S 0 (int C) (batch_size cfg) r2 else ([], r2)) = (ls, r3)"
    by (cases "if C > 1 then randint S 0 (int C) (batch_size cfg) r2 else ([], r2)")
  let ?ins = "[NoiseArr noise, FloatArr e] @ class_part C [IntArr ls]"
  let ?outs = "[FloatArr (np_ones (batch_size cfg)), FloatArr e] @ class_part C [IntArr ls]"
  let ?c = "TrainOnBatch Combined ?ins ?outs (loss_weights C (batch_size cfg))"
  obtain l n' where t:
    "train_on_batch K Combined (nets w) ?ins ?outs (loss_weights C (batch_size cfg)) = (l, n')"
    by (cases "train_on_batch K Combined (nets w) ?ins ?outs (loss_weights C (batch_size cfg))")
  let ?w = "w\<lparr>nets := n', rng := r3, calls := calls w @ [?c]\<rparr>"
  have step: "generator_updates K S cfg C (Suc n) gl w
                = generator_updates K S cfg C n (gl @ [l]) ?w"
    using d1 d2 d3 t by (simp add: Let_def)
  from Suc.IH [of "gl @ [l]" ?w] obtain cs where
    cs: "calls (snd (generator_updates K S cfg C n (gl @ [l]) ?w)) = calls ?w @ cs"
        "length cs = n" "list_all (trick_call C (batch_size cfg)) cs"
    by blast
  have "trick_call C (batch_size cfg) ?c"
    unfolding trick_call_def by blast
  with cs step show ?case
    by (intro exI [of _ "?c # cs"]) simp
qed

lemma generator_updates_losses:
  assumes "fixed_loss_length K k"
  shows "list_all (\<lambda>l. length l = k) gl \<Longrightarrow>
           list_all (\<lambda>l. length l = k) (fst (generator_updates K S cfg C n gl w))"
proof (induction n arbitrary: gl w)
  case 0
  then show ?case by simp
next
  case (Suc n)
  from assms have len: "\<And>m nt ins outs sw l n'.
      train_on_batch K m nt ins outs sw = (l, n') \<Longrightarrow> length l = k"
    unfolding fixed_loss_length_def by (metis fst_conv)
  show ?case
    using Suc.prems
    by (auto simp: Let_def split: prod.splits intro!: Suc.IH dest: len)
qed

lemma np_mean_axis0_defined:
  "list_all (\<lambda>l. length l = k) rows \<Longrightarrow> \<exists>m. np_mean_axis0 rows = Inr m"
  by (cases rows) (auto simp: np_mean_axis0_def list_all_iff)

lemma train_step_world:
  fixes K :: "('o, 'img) keras" and S :: "'r sampler" and w :: "('o, 'r, 'img, 'fs) world"
    and cfg :: config and data :: "'img dataset" and index :: nat
    and g :: globals and epoch :: int and loc :: locals
  defines "bs \<equiv> batch_size cfg" and "C \<equiv> nb_classes data"
  defines "lo \<equiv> index * bs" and "hi \<equiv> (index + 1) * bs"
  defines "opened \<equiv> gate (last_epoch_gen_loss g) (maintain_gen_loss_below cfg) epoch"
  defines "step \<equiv> train_step K S cfg data g epoch index loc w"
  shows "\<exists>noise e ls r gs.
           calls (fst step) =
             calls w
             @ Predict Generator ([NoiseArr noise, FloatArr e] @ class_part C [IntArr ls])
             # (if opened
                then [TrainOnBatch Discriminator
                        [ImageArr (slice lo hi (first data)), ImageArr (slice lo hi (second data)),
                         ImageArr (slice lo hi (third data)), FloatArr (slice lo hi (energy data))]
                        ([FloatArr (np_ones bs), FloatArr (slice lo hi (energy data))]
                         @ class_part C [IntArr (slice lo hi (y_labels data))])
                        (loss_weights C bs),
                      TrainOnBatch Discriminator
                        (predict K Generator (nets w)
                           ([NoiseArr noise, FloatArr e] @ class_part C [IntArr ls])
                         @ [FloatArr e])
                        ([FloatArr (np_zeros bs), FloatArr e]
                         @ class_part C [IntArr (fst (bit_flip S ls 0.3 r))])
                        (loss_weights C bs)]
                else [])
             @ gs
           \<and> list_all (trick_call C bs) gs
           \<and> (gs = [] \<or> length gs = nat (2 * train_gen_per_epoch cfg))
           \<and> (opened \<and> (\<exists>k. fixed_loss_length K k)
                \<longrightarrow> length gs = nat (2 * train_gen_per_epoch cfg) \<and> (\<exists>loc'. snd step = Inr loc'))"
proof -
  obtain noise r1 where d1: "normal S bs (latent_size cfg) (rng w) = (noise, r1)"
    by (cases "normal S bs (latent_size cfg) (rng w)")
  obtain ls r2 where d2: "randint S 0 (int C) bs r1 = (ls, r2)"
    by (cases "randint S 0 (int C) bs r1")
  obtain e r3 where d3: "uniform S 1 100 bs r2 = (e, r3)"
    by (cases "uniform S 1 100 bs r2")
  obtain flipped r4 where d4:
    "(if C > 1 then bit_flip S ls 0.3 r3 else ([], r3)) = (flipped, r4)"
    by (cases "if C > 1 then bit_flip S ls 0.3 r3 else ([], r3)")
  have flipped: "class_part C [IntArr flipped :: 'img array]
                   = class_part C [IntArr (fst (bit_flip S ls 0.3 r3))]"
    using d4 by (auto simp: class_part_def)
  let ?gi = "[NoiseArr noise, FloatArr e] @ class_part C [IntArr ls] :: 'img array list"
  let ?ri = "[ImageArr (slice lo hi (first data)), ImageArr (slice lo hi (second data)),
              ImageArr (slice lo hi (third data)), FloatArr (slice lo hi (energy data))]"
  let ?ro = "[FloatArr (np_ones bs), FloatArr (slice lo hi (energy data))]
             @ class_part C [IntArr (slice lo hi (y_labels data))] :: 'img array list"
  let ?fi = "predict K Generator (nets w) ?gi @ [FloatArr e]"
  let ?fo = "[FloatArr (np_zeros bs), FloatArr e] @ class_part C [IntArr flipped] :: 'img array list"
  let ?lw = "loss_weights C bs :: 'img array list"
  let ?w1 = "w\<lparr>rng := r4, calls := calls w @ [Predict Generator ?gi]\<rparr>"
  obtain rl n1 where t1: "train_on_batch K Discriminator (nets w) ?ri ?ro ?lw = (rl, n1)"
    by (cases "train_on_batch K Discriminator (nets w) ?ri ?ro ?lw")
  obtain fl n2 where t2: "train_on_batch K Discriminator n1 ?fi ?fo ?lw = (fl, n2)"
    by (cases "train_on_batch K Discriminator n1 ?fi ?fo ?lw")
  let ?dc = "[TrainOnBatch Discriminator ?ri ?ro ?lw, TrainOnBatch Discriminator ?fi ?fo ?lw]"
  let ?n = "nat (2 * train_gen_per_epoch cfg)"
  let ?gen = "\<lambda>w2. generator_updates K S cfg C ?n [] w2"
  have "\<exists>w2. calls w2 = calls w @ Predict Generator ?gi # (if opened then ?dc else [])
             \<and> (fst step = w2 \<or> fst step = snd (?gen w2))
             \<and> (opened \<and> (\<exists>k. fixed_loss_length K k)
                  \<longrightarrow> fst step = snd (?gen w2) \<and> (\<exists>loc'. snd step = Inr loc'))"
  proof (cases opened)
    case True
    let ?w2 = "?w1\<lparr>nets := n2, calls := calls ?w1 @ ?dc\<rparr>"
    have open_step: "step =
        (case np_add fl rl of
           Inl err \<Rightarrow> (?w2, Inl err)
         | Inr s \<Rightarrow>
             (case np_mean_axis0 (fst (?gen ?w2)) of
                Inl err \<Rightarrow> (snd (?gen ?w2), Inl err)
              | Inr m \<Rightarrow>
                  (snd (?gen ?w2),
                   Inr (loc\<lparr>real_batch_loss := Some rl, fake_batch_loss := Some fl,
                          epoch_disc_loss := epoch_disc_loss loc @ [map (\<lambda>x. x / 2) s],
                          epoch_gen_loss := epoch_gen_loss loc @ [m]\<rparr>))))"
      using d1 d2 d3 d4 t1 t2 True
      unfolding step_def train_step_def bs_def C_def lo_def hi_def opened_def
      by (simp add: Let_def split: prod.splits sum.splits)
    then have either: "fst step = ?w2 \<or> fst step = snd (?gen ?w2)"
      by (simp split: sum.splits)
    have ok: "fst step = snd (?gen ?w2) \<and> (\<exists>loc'. snd step = Inr loc')"
      if "fixed_loss_length K k" for k
    proof -
      from that t1 t2 have "length rl = k" "length fl = k"
        unfolding fixed_loss_length_def by (metis fst_conv)+
      then obtain s where s: "np_add fl rl = Inr s"
        by (simp add: np_add_def)
      from generator_updates_losses [OF that, of "[]" S cfg C ?n ?w2]
      have "list_all (\<lambda>l. length l = k) (fst (?gen ?w2))"
        by simp
      from np_mean_axis0_defined [OF this] obtain m where
        "np_mean_axis0 (fst (?gen ?w2)) = Inr m"
        by blast
      with s open_step show ?thesis
        by simp
    qed
    have "calls ?w2 = calls w @ Predict Generator ?gi # (if opened then ?dc else [])"
      using True by simp
    with either ok show ?thesis
      by blast
  next
    case False
    have "fst step = ?w1 \<or> fst step = snd (?gen ?w1)"
      using d1 d2 d3 d4 False
      unfolding step_def train_step_def bs_def C_def lo_def hi_def opened_def
      by (simp add: Let_def split: prod.splits sum.splits option.splits)
    moreover have "calls ?w1 = calls w @ Predict Generator ?gi # (if opened then ?dc else [])"
      using False by simp
    ultimately show ?thesis
      using False by blast
  qed
  then obtain w2 where w2:
    "calls w2 = calls w @ Predict Generator ?gi # (if opened then ?dc else [])"
    "fst step = w2 \<or> fst step = snd (?gen w2)"
    "opened \<and> (\<exists>k. fixed_loss_length K k)
       \<longrightarrow> fst step = snd (?gen w2) \<and> (\<exists>loc'. snd step = Inr loc')"
    by blast
  from generator_updates_calls [of K S cfg C ?n "[]" w2]
  obtain gs where gs:
    "calls (snd (?gen w2)) = calls w2 @ gs"
    "length gs = ?n" "list_all (trick_call C bs) gs"
    unfolding bs_def by blast
  let ?fo' = "[FloatArr (np_zeros bs), FloatArr e]
              @ class_part C [IntArr (fst (bit_flip S ls 0.3 r3))] :: 'img array list"
  let ?dc' = "[TrainOnBatch Discriminator ?ri ?ro ?lw, TrainOnBatch Discriminator ?fi ?fo' ?lw]"
  have dc: "?dc = ?dc'"
    by (simp add: flipped)
  let ?P = "\<lambda>gs. calls (fst step)
                   = calls w @ Predict Generator ?gi # (if opened then ?dc' else []) @ gs
                 \<and> list_all (trick_call C bs) gs
                 \<and> (gs = [] \<or> length gs = ?n)
                 \<and> (opened \<and> (\<exists>k. fixed_loss_length K k)
                      \<longrightarrow> length gs = ?n \<and> (\<exists>loc'. snd step = Inr loc'))"
  have "\<exists>gs. ?P gs"
  proof (cases "fst step = snd (?gen w2)")
    case True
    have "?P gs"
    proof (intro conjI)
      show "calls (fst step)
              = calls w @ Predict Generator ?gi # (if opened then ?dc' else []) @ gs"
        unfolding True gs(1) w2(1) dc by simp
      show "list_all (trick_call C bs) gs" by (rule gs(3))
      show "gs = [] \<or> length gs = ?n" using gs(2) by simp
      show "opened \<and> (\<exists>k. fixed_loss_length K k)
              \<longrightarrow> length gs = ?n \<and> (\<exists>loc'. snd step = Inr loc')"
        using gs(2) w2(3) by blast
    qed
    then show ?thesis by blast
  next
    case False
    with w2(2,3) have stop: "fst step = w2"
      and closed: "\<not> (opened \<and> (\<exists>k. fixed_loss_length K k))"
      by blast+
    have "?P []"
    proof (intro conjI)
      show "calls (fst step)
              = calls w @ Predict Generator ?gi # (if opened then ?dc' else []) @ []"
        unfolding stop w2(1) dc by simp
      show "list_all (trick_call C bs) []" by simp
      show "[] = [] \<or> length ([] :: 'img call list) = ?n" by simp
      show "opened \<and> (\<exists>k. fixed_loss_length K k)
              \<longrightarrow> length ([] :: 'img call list) = ?n \<and> (\<exists>loc'. snd step = Inr loc')"
        using closed by blast
    qed
    then show ?thesis by blast
  qed
  then obtain gs' where "?P gs'" by blast
  then show ?thesis
    by (intro exI [of _ noise] exI [of _ e] exI [of _ ls] exI [of _ r3] exI [of _ gs'])
qed

lemma train_step_extends:
  "calls (fst (train_step K S cfg data g epoch index loc w))
     = calls w @ step_calls K S cfg data g epoch index loc w"
proof -
  from train_step_world [of K S cfg data g epoch index loc w]
  obtain rest where "calls (fst (train_step K S cfg data g epoch index loc w)) = calls w @ rest"
    by blast
  then show ?thesis
    by (simp add: step_calls_def)
qed

lemma train_step_calls:
  fixes K :: "('o, 'img) keras" and S :: "'r sampler" and w :: "('o, 'r, 'img, 'fs) world"
    and cfg :: config and data :: "'img dataset" and index :: nat
    and g :: globals and epoch :: int and loc :: locals
  defines "bs \<equiv> batch_size cfg" and "C \<equiv> nb_classes data"
  defines "lo \<equiv> index * bs" and "hi \<equiv> (index + 1) * bs"
  defines "opened \<equiv> gate (last_epoch_gen_loss g) (maintain_gen_loss_below cfg) epoch"
  shows "\<exists>noise e ls r gs.
           step_calls K S cfg data g epoch index loc w =
             Predict Generator ([NoiseArr noise, FloatArr e] @ class_part C [IntArr ls])
             # (if opened
                then [TrainOnBatch Discriminator
                        [ImageArr (slice lo hi (first data)), ImageArr (slice lo hi (second data)),
                         ImageArr (slice lo hi (third data)), FloatArr (slice lo hi (energy data))]
                        ([FloatArr (np_ones bs), FloatArr (slice lo hi (energy data))]
                         @ class_part C [IntArr (slice lo hi (y_labels data))])
                        (loss_weights C bs),
                      TrainOnBatch Discriminator
                        (predict K Generator (nets w)
                           ([NoiseArr noise, FloatArr e] @ class_part C [IntArr ls])
                         @ [FloatArr e])
                        ([FloatArr (np_zeros bs), FloatArr e]
                         @ class_part C [IntArr (fst (bit_flip S ls 0.3 r))])
                        (loss_weights C bs)]
                else [])
             @ gs
           \<and> list_all (trick_call C bs) gs
           \<and> (gs = [] \<or> length gs = nat (2 * train_gen_per_epoch cfg))
           \<and> (opened \<and> (\<exists>k. fixed_loss_length K k)
                \<longrightarrow> length gs = nat (2 * train_gen_per_epoch cfg)
                    \<and> (\<exists>loc'. snd (train_step K S cfg data g epoch index loc w) = Inr loc'))"
  using train_step_world [of K S cfg data g epoch index loc w]
  unfolding step_calls_def bs_def C_def lo_def hi_def opened_def
  by (elim exE conjE) (simp, blast)

subsection \<open>The gate on the discriminator\<close>

lemma gate_iff:
  "gate recorded limit epoch \<longleftrightarrow>
     recorded = None \<or> (\<exists>l. recorded = Some l \<and> l < limit) \<or> epoch < 10"
  by (cases recorded) (simp_all add: gate_def)

lemma trick_call_not_discriminator:
  "list_all (trick_call C bs) gs \<Longrightarrow> filter discriminator_update gs = []"
  by (induction gs) (auto simp: trick_call_def discriminator_update_def)

text \<open>
  C1. In every training step the discriminator is trained exactly when no generator
  loss has been recorded, or the recorded loss is below \<open>maintain_gen_loss_below\<close>, or
  the epoch is below 10: then it is trained twice, first on the real batch and then on
  the generated batch, and otherwise not at all. So with a recorded loss at or above the
  ceiling from epoch 10 on there is no call, and before epoch 10 there are always two.
\<close>

theorem discriminator_gate:
  fixes K :: "('o, 'img) keras" and S :: "'r sampler" and w :: "('o, 'r, 'img, 'fs) world"
    and cfg :: config and data :: "'img dataset" and index :: nat
    and g :: globals and epoch :: int and loc :: locals
  defines "bs \<equiv> batch_size cfg"
  defines "updates \<equiv> filter discriminator_update (step_calls K S cfg data g epoch index loc w)"
  shows "(\<exists>fake_inputs.
            map call_inputs updates =
              (if last_epoch_gen_loss g = None
                  \<or> (\<exists>l. last_epoch_gen_loss g = Some l \<and> l < maintain_gen_loss_below cfg)
                  \<or> epoch < 10
               then [[ImageArr (slice (index * bs) ((index + 1) * bs) (first data)),
                      ImageArr (slice (index * bs) ((index + 1) * bs) (second data)),
                      ImageArr (slice (index * bs) ((index + 1) * bs) (third data)),
                      FloatArr (slice (index * bs) ((index + 1) * bs) (energy data))],
                     fake_inputs]
               else []))
         \<and> (\<forall>l. last_epoch_gen_loss g = Some l \<and> maintain_gen_loss_below cfg \<le> l \<and> 10 \<le> epoch
                \<longrightarrow> updates = [])
         \<and> (epoch < 10 \<longrightarrow> length updates = 2)"
proof -
  let ?open = "gate (last_epoch_gen_loss g) (maintain_gen_loss_below cfg) epoch"
  from train_step_calls [of K S cfg data g epoch index loc w]
  obtain p real_call fake_call gs where
    trace: "step_calls K S cfg data g epoch index loc w
              = Predict Generator p # (if ?open then [real_call, fake_call] else []) @ gs"
    and real: "real_call = TrainOnBatch Discriminator
                 [ImageArr (slice (index * bs) ((index + 1) * bs) (first data)),
                  ImageArr (slice (index * bs) ((index + 1) * bs) (second data)),
                  ImageArr (slice (index * bs) ((index + 1) * bs) (third data)),
                  FloatArr (slice (index * bs) ((index + 1) * bs) (energy data))]
                 ([FloatArr (np_ones bs),
                   FloatArr (slice (index * bs) ((index + 1) * bs) (energy data))]
                  @ class_part (nb_classes data)
                      [IntArr (slice (index * bs) ((index + 1) * bs) (y_labels data))])
                 (loss_weights (nb_classes data) bs)"
    and fake: "\<exists>ins outs sw. fake_call = TrainOnBatch Discriminator ins outs sw"
    and gs: "list_all (trick_call (nb_classes data) bs) gs"
    unfolding bs_def by blast
  from fake obtain ins outs sw where fake': "fake_call = TrainOnBatch Discriminator ins outs sw"
    by blast
  have updates: "updates = (if ?open then [real_call, fake_call] else [])"
    unfolding updates_def trace
    using trick_call_not_discriminator [OF gs]
    by (simp add: discriminator_update_def real fake')
  show ?thesis
  proof (intro conjI)
    show "\<exists>fake_inputs.
            map call_inputs updates =
              (if last_epoch_gen_loss g = None
                  \<or> (\<exists>l. last_epoch_gen_loss g = Some l \<and> l < maintain_gen_loss_below cfg)
                  \<or> epoch < 10
               then [[ImageArr (slice (index * bs) ((index + 1) * bs) (first data)),
                      ImageArr (slice (index * bs) ((index + 1) * bs) (second data)),
                      ImageArr (slice (index * bs) ((index + 1) * bs) (third data)),
                      FloatArr (slice (index * bs) ((index + 1) * bs) (energy data))],
                     fake_inputs]
               else [])"
      unfolding updates gate_iff [symmetric]
      by (intro exI [of _ ins]) (simp add: real fake' call_inputs_def)
    show "\<forall>l. last_epoch_gen_loss g = Some l \<and> maintain_gen_loss_below cfg \<le> l \<and> 10 \<le> epoch
            \<longrightarrow> updates = []"
      unfolding updates by (auto simp: gate_def)
    show "epoch < 10 \<longrightarrow> length updates = 2"
      unfolding updates by (simp add: gate_iff)
  qed
qed

theorem discriminator_gate_witness:
  "filter discriminator_update
     (step_calls example_keras example_sampler example_config example_data
        \<lparr>last_epoch_gen_loss = Some 2000, last_epoch_disc_loss = None\<rparr> 12 0
        fresh_locals example_world) = []
   \<and> length (filter discriminator_update
       (step_calls example_keras example_sampler example_config example_data
          \<lparr>last_epoch_gen_loss = Some 2000, last_epoch_disc_loss = None\<rparr> 3 0
          fresh_locals example_world)) = 2
   \<and> map call_inputs (filter discriminator_update
       (step_calls example_keras example_sampler example_config example_data
          \<lparr>last_epoch_gen_loss = Some 500, last_epoch_disc_loss = None\<rparr> 12 1
          fresh_locals example_world))
     = [[ImageArr [4, 5, 6, 7], ImageArr [14, 15, 16, 17], ImageArr [24, 25, 26, 27],
         FloatArr [25, 30, 35, 40]],
        [FloatArr [1, 1, 1, 1]]]"
proof -
  have closed: "filter discriminator_update
     (step_calls example_keras example_sampler example_config example_data
        \<lparr>last_epoch_gen_loss = Some 2000, last_epoch_disc_loss = None\<rparr> 12 0
        fresh_locals example_world) = []"
    using discriminator_gate [where K = example_keras and S = example_sampler
        and cfg = example_config and data = example_data
        and g = "\<lparr>last_epoch_gen_loss = Some 2000, last_epoch_disc_loss = None\<rparr>"
        and epoch = 12 and index = 0 and loc = fresh_locals and w = example_world]
    by (simp add: example_config_def)
  have warm_up: "length (filter discriminator_update
       (step_calls example_keras example_sampler example_config example_data
          \<lparr>last_epoch_gen_loss = Some 2000, last_epoch_disc_loss = None\<rparr> 3 0
          fresh_locals example_world)) = 2"
    using discriminator_gate [where K = example_keras and S = example_sampler
        and cfg = example_config and data = example_data
        and g = "\<lparr>last_epoch_gen_loss = Some 2000, last_epoch_disc_loss = None\<rparr>"
        and epoch = 3 and index = 0 and loc = fresh_locals and w = example_world]
    by simp
  have below: "map call_inputs (filter discriminator_update
       (step_calls example_keras example_sampler example_config example_data
          \<lparr>last_epoch_gen_loss = Some 500, last_epoch_disc_loss = None\<rparr> 12 1
          fresh_locals example_world))
     = [[ImageArr [4, 5, 6, 7], ImageArr [14, 15, 16, 17], ImageArr [24, 25, 26, 27],
         FloatArr [25, 30, 35, 40]],
        [FloatArr [1, 1, 1, 1]]]"
    by code_simp
  from closed warm_up below show ?thesis by simp
qed

subsection \<open>Targets and sample weights\<close>

text \<open>
  C7. The calls of a training step carry these targets. The discriminator's real batch:
  ones for the realism output, the energies of the batch, and with more than one class
  the labels of the batch. Its generated batch: zeros, the energies that were requested
  from the generator for this batch, and with more than one class the requested labels
  after \<open>bit_flip\<close> with probability 0.3. Every update of the combined model: ones, the
  energies requested in its own inputs, and with more than one class the labels
  requested in its own inputs, as they are.
\<close>

theorem batch_targets:
  fixes K :: "('o, 'img) keras" and S :: "'r sampler" and w :: "('o, 'r, 'img, 'fs) world"
    and cfg :: config and data :: "'img dataset" and index :: nat
    and g :: globals and epoch :: int and loc :: locals
  defines "bs \<equiv> batch_size cfg" and "C \<equiv> nb_classes data"
  defines "lo \<equiv> index * bs" and "hi \<equiv> (index + 1) * bs"
  shows "\<exists>noise e ls r gs.
           step_calls K S cfg data g epoch index loc w =
             Predict Generator
               ([NoiseArr noise, FloatArr e] @ (if C > 1 then [IntArr ls] else []))
             # (if gate (last_epoch_gen_loss g) (maintain_gen_loss_below cfg) epoch
                then [TrainOnBatch Discriminator
                        [ImageArr (slice lo hi (first data)), ImageArr (slice lo hi (second data)),
                         ImageArr (slice lo hi (third data)), FloatArr (slice lo hi (energy data))]
                        ([FloatArr (replicate bs 1), FloatArr (slice lo hi (energy data))]
                         @ (if C > 1 then [IntArr (slice lo hi (y_labels data))] else []))
                        (loss_weights C bs),
                      TrainOnBatch Discriminator
                        (predict K Generator (nets w)
                           ([NoiseArr noise, FloatArr e] @ (if C > 1 then [IntArr ls] else []))
                         @ [FloatArr e])
                        ([FloatArr (replicate bs 0), FloatArr e]
                         @ (if C > 1 then [IntArr (fst (bit_flip S ls 0.3 r))] else []))
                        (loss_weights C bs)]
                else [])
             @ gs
           \<and> list_all
               (\<lambda>c. \<exists>noise' e' ls'.
                  c = TrainOnBatch Combined
                        ([NoiseArr noise', FloatArr e'] @ (if C > 1 then [IntArr ls'] else []))
                        ([FloatArr (replicate bs 1), FloatArr e']
                         @ (if C > 1 then [IntArr ls'] else []))
                        (loss_weights C bs))
               gs"
proof -
  have trick: "trick_call C bs =
      (\<lambda>c. \<exists>noise' e' ls'.
         c = TrainOnBatch Combined
               ([NoiseArr noise', FloatArr e'] @ (if C > 1 then [IntArr ls'] else []))
               ([FloatArr (replicate bs 1), FloatArr e'] @ (if C > 1 then [IntArr ls'] else []))
               (loss_weights C bs))" for C bs
    by (rule ext) (simp add: trick_call_def class_part_def np_ones_def)
  from train_step_calls [of K S cfg data g epoch index loc w]
  show ?thesis
    unfolding bs_def C_def lo_def hi_def trick class_part_def np_ones_def np_zeros_def
    by blast
qed

theorem batch_targets_witness:
  "step_calls example_keras example_sampler example_config example_data
     \<lparr>last_epoch_gen_loss = None, last_epoch_disc_loss = None\<rparr> 0 1 fresh_locals example_world
   = [Predict Generator
        [NoiseArr (replicate 4 (replicate 8 0)), FloatArr [1, 1, 1, 1], IntArr [0, 0, 0, 0]],
      TrainOnBatch Discriminator
        [ImageArr [4, 5, 6, 7], ImageArr [14, 15, 16, 17], ImageArr [24, 25, 26, 27],
         FloatArr [25, 30, 35, 40]]
        [FloatArr [1, 1, 1, 1], FloatArr [25, 30, 35, 40], IntArr [1, 0, 0, 1]]
        [FloatArr [1, 1, 1, 1], FloatArr [0.05, 0.05, 0.05, 0.05],
         FloatArr [0.2, 0.2, 0.2, 0.2]],
      TrainOnBatch Discriminator
        [FloatArr [1, 1, 1, 1]]
        [FloatArr [0, 0, 0, 0], FloatArr [1, 1, 1, 1], IntArr [1, 1, 1, 1]]
        [FloatArr [1, 1, 1, 1], FloatArr [0.05, 0.05, 0.05, 0.05],
         FloatArr [0.2, 0.2, 0.2, 0.2]],
      TrainOnBatch Combined
        [NoiseArr (replicate 4 (replicate 8 0)), FloatArr [1, 1, 1, 1], IntArr [0, 0, 0, 0]]
        [FloatArr [1, 1, 1, 1], FloatArr [1, 1, 1, 1], IntArr [0, 0, 0, 0]]
        [FloatArr [1, 1, 1, 1], FloatArr [0.05, 0.05, 0.05, 0.05],
         FloatArr [0.2, 0.2, 0.2, 0.2]],
      TrainOnBatch Combined
        [NoiseArr (replicate 4 (replicate 8 0)), FloatArr [1, 1, 1, 1], IntArr [0, 0, 0, 0]]
        [FloatArr [1, 1, 1, 1], FloatArr [1, 1, 1, 1], IntArr [0, 0, 0, 0]]
        [FloatArr [1, 1, 1, 1], FloatArr [0.05, 0.05, 0.05, 0.05],
         FloatArr [0.2, 0.2, 0.2, 0.2]]]"
  (is "?calls = ?expected")
proof -
  have run: "?calls = ?expected"
    by code_simp
  from batch_targets [where K = example_keras and S = example_sampler
      and cfg = example_config and data = example_data
      and g = "\<lparr>last_epoch_gen_loss = None, last_epoch_disc_loss = None\<rparr>"
      and epoch = 0 and index = 1 and loc = fresh_locals and w = example_world]
  show ?thesis
    by (simp only: run)
qed

lemma train_steps_calls:
  fixes K :: "('o, 'img) keras" and S :: "'r sampler" and w :: "('o, 'r, 'img, 'fs) world"
  assumes "\<And>index loc (w :: ('o, 'r, 'img, 'fs) world).
             list_all P (step_calls K S cfg data g epoch index loc w)"
  shows "\<exists>new. calls (fst (train_steps K S cfg data g epoch indices loc w)) = calls w @ new
           \<and> list_all P new"
proof (induction indices arbitrary: loc w)
  case Nil
  then show ?case by simp
next
  case (Cons index rest)
  obtain w' res where step: "train_step K S cfg data g epoch index loc w = (w', res)"
    by (cases "train_step K S cfg data g epoch index loc w")
  from train_step_extends [of K S cfg data g epoch index loc w] step
  have ext: "calls w' = calls w @ step_calls K S cfg data g epoch index loc w"
    by simp
  show ?case
  proof (cases res)
    case (Inl err)
    with step ext assms show ?thesis by simp
  next
    case (Inr loc')
    from Cons.IH [of loc' w'] obtain new where
      "calls (fst (train_steps K S cfg data g epoch rest loc' w')) = calls w' @ new"
      "list_all P new"
      by blast
    with step ext Inr assms [of index loc w] show ?thesis
      by (intro exI [of _ "step_calls K S cfg data g epoch index loc w @ new"]) simp
  qed
qed

lemma train_gan_calls:
  "calls (fst (train_gan K S cfg data g epoch nb_batches w))
     = calls (fst (train_steps K S cfg data g epoch [0..<nat nb_batches]
                     \<lparr>real_batch_loss = None, fake_batch_loss = None,
                      epoch_gen_loss = [], epoch_disc_loss = []\<rparr> w))"
  by (simp add: train_gan_def split: prod.splits sum.splits)

lemma save_epoch_calls: "calls (save_epoch OS cfg last_epoch epoch w) = calls w"
  by (simp add: save_epoch_def Let_def)

lemma epochs_calls:
  fixes K :: "('o, 'img) keras" and S :: "'r sampler" and w :: "('o, 'r, 'img, 'fs) world"
  assumes "\<And>epoch index loc (w :: ('o, 'r, 'img, 'fs) world).
             list_all P (step_calls K S cfg data g epoch index loc w)"
  shows "\<exists>new. calls (fst (epochs K S OS cfg data last_epoch es g w)) = calls w @ new
           \<and> list_all P new"
proof (induction es arbitrary: w)
  case Nil
  then show ?case by simp
next
  case (Cons epoch rest)
  let ?nb = "int (length (first data) div batch_size cfg)"
  show ?case
  proof (cases "batch_size cfg = 0")
    case True
    then show ?thesis by simp
  next
    case False
    obtain w' res where run: "train_gan K S cfg data g epoch ?nb w = (w', res)"
      by (cases "train_gan K S cfg data g epoch ?nb w")
    from train_steps_calls [of P K S cfg data g epoch, OF assms] train_gan_calls [of K S cfg data g epoch ?nb w] run
    obtain new where new: "calls w' = calls w @ new" "list_all P new"
      by (metis fst_conv)
    show ?thesis
    proof (cases res)
      case (Inl err)
      with run new False show ?thesis by simp
    next
      case (Inr ok)
      obtain g' ends where ok: "ok = (g', ends)" by (cases ok)
      have same: "g' = g"
        using run Inr ok by (auto simp: train_gan_def split: prod.splits sum.splits)
      from Cons.IH [of "save_epoch OS cfg last_epoch epoch w'"] obtain more where
        "calls (fst (epochs K S OS cfg data last_epoch rest g (save_epoch OS cfg last_epoch epoch w')))
           = calls w' @ more" "list_all P more"
        by (auto simp: save_epoch_calls)
      with run new False Inr ok same show ?thesis
        by (intro exI [of _ "new @ more"]) (simp add: Let_def)
    qed
  qed
qed

text \<open>
  C8. Every \<open>train_on_batch\<close> call of a training step (the discriminator on the real
  batch, the discriminator on the generated batch, and every update of the combined
  model) is given the same sample weights: ones for the realism output, 0.05 for the
  energy output and, with more than one class, 0.2 for the class output. The same
  holds for every call made in the whole training loop.
\<close>

theorem sample_weights_fixed:
  fixes K :: "('o, 'img) keras" and S :: "'r sampler" and w :: "('o, 'r, 'img, 'fs) world"
    and OS :: "('fs, 'o) os" and cfg :: config and data :: "'img dataset"
  defines "fixed_weights \<equiv>
     [FloatArr (replicate (batch_size cfg) 1), FloatArr (replicate (batch_size cfg) 0.05)]
     @ (if nb_classes data > 1 then [FloatArr (replicate (batch_size cfg) 0.2)] else [])"
  shows "list_all (\<lambda>c. sample_weight c = None \<or> sample_weight c = Some fixed_weights)
           (step_calls K S cfg data g epoch index loc w)
         \<and> list_all (\<lambda>c. sample_weight c = None \<or> sample_weight c = Some fixed_weights)
             (drop (length (calls w))
                (calls (fst (training K S OS cfg data last_epoch g w))))"
proof -
  let ?P = "\<lambda>c :: 'img call. sample_weight c = None \<or> sample_weight c = Some fixed_weights"
  have lw: "loss_weights (nb_classes data) (batch_size cfg) = fixed_weights"
    by (simp add: loss_weights_def fixed_weights_def class_part_def np_ones_def)
  have step: "list_all ?P (step_calls K S cfg data g epoch index loc w)"
    for g epoch index loc and w :: "('o, 'r, 'img, 'fs) world"
  proof -
    from train_step_calls [of K S cfg data g epoch index loc w]
    obtain p c1 c2 gs where
      trace: "step_calls K S cfg data g epoch index loc w
                = Predict Generator p
                  # (if gate (last_epoch_gen_loss g) (maintain_gen_loss_below cfg) epoch
                     then [c1, c2] else []) @ gs"
      and c1: "\<exists>ins outs. c1 = TrainOnBatch Discriminator ins outs
                                 (loss_weights (nb_classes data) (batch_size cfg))"
      and c2: "\<exists>ins outs. c2 = TrainOnBatch Discriminator ins outs
                                 (loss_weights (nb_classes data) (batch_size cfg))"
      and gs: "list_all (trick_call (nb_classes data) (batch_size cfg)) gs"
      by blast
    from gs have "list_all ?P gs"
      by (auto simp: list_all_iff trick_call_def sample_weight_def lw)
    with c1 c2 show ?thesis
      unfolding trace by (auto simp: sample_weight_def lw)
  qed
  from epochs_calls [of ?P K S cfg data g OS last_epoch _ w, OF step]
  have "list_all ?P (drop (length (calls w))
                       (calls (fst (training K S OS cfg data last_epoch g w))))"
    unfolding training_def by (metis append_eq_conv_conj)
  with step show ?thesis
    by blast
qed

theorem sample_weights_fixed_witness:
  "list_all (\<lambda>c. sample_weight c = None
                 \<or> sample_weight c
                     = Some [FloatArr [1, 1, 1, 1], FloatArr [0.05, 0.05, 0.05, 0.05],
                             FloatArr [0.2, 0.2, 0.2, 0.2 :: real]])
     (step_calls example_keras example_sampler example_config example_data
        \<lparr>last_epoch_gen_loss = None, last_epoch_disc_loss = None\<rparr> 0 0 fresh_locals
        example_world)
   \<and> list_all (\<lambda>c. sample_weight c = None
                 \<or> sample_weight c
                     = Some [FloatArr [1, 1, 1, 1], FloatArr [0.05, 0.05, 0.05, 0.05],
                             FloatArr [0.2, 0.2, 0.2, 0.2 :: real]])
       (drop (length (calls example_world))
          (calls (fst (training example_keras example_sampler example_os example_config
                         example_data (- 1)
                         \<lparr>last_epoch_gen_loss = None, last_epoch_disc_loss = None\<rparr>
                         example_world))))"
proof -
  have weights: "[FloatArr (replicate (batch_size example_config) 1),
                  FloatArr (replicate (batch_size example_config) 0.05)]
                 @ (if nb_classes example_data > 1
                    then [FloatArr (replicate (batch_size example_config) 0.2)] else [])
                 = [FloatArr [1, 1, 1, 1], FloatArr [0.05, 0.05, 0.05, 0.05],
                    FloatArr [0.2, 0.2, 0.2, 0.2 :: real] :: nat array]"
    by (simp add: example_config_def example_data_def eval_nat_numeral)
  from sample_weights_fixed [where K = example_keras and S = example_sampler
      and OS = example_os and cfg = example_config and data = example_data
      and g = "\<lparr>last_epoch_gen_loss = None, last_epoch_disc_loss = None\<rparr>"
      and epoch = 0 and index = 0 and loc = fresh_locals and w = example_world
      and last_epoch = "- 1"]
  show ?thesis
    unfolding weights .
qed

subsection \<open>Counting the calls of an epoch\<close>

lemma trick_call_generator:
  "list_all (trick_call C bs) gs \<Longrightarrow>
     filter generator_call gs = gs \<and> filter generator_predict gs = []"
  by (induction gs) (auto simp: trick_call_def generator_call_def generator_predict_def)

lemma train_step_counts:
  fixes K :: "('o, 'img) keras" and S :: "'r sampler" and w :: "('o, 'r, 'img, 'fs) world"
  assumes "gate (last_epoch_gen_loss g) (maintain_gen_loss_below cfg) epoch"
    and "fixed_loss_length K k"
  shows "\<exists>w' new loc'. train_step K S cfg data g epoch index loc w = (w', Inr loc')
           \<and> calls w' = calls w @ new
           \<and> length (filter generator_predict new) = 1
           \<and> length (filter generator_call new) = 1 + nat (2 * train_gen_per_epoch cfg)"
proof -
  let ?step = "train_step K S cfg data g epoch index loc w"
  from train_step_world [of K S cfg data g epoch index loc w] assms
  obtain p c1 c2 gs loc' where
    trace: "calls (fst ?step) = calls w @ Predict Generator p # [c1, c2] @ gs"
    and c1: "\<exists>ins outs sw. c1 = TrainOnBatch Discriminator ins outs sw"
    and c2: "\<exists>ins outs sw. c2 = TrainOnBatch Discriminator ins outs sw"
    and gs: "list_all (trick_call (nb_classes data) (batch_size cfg)) gs"
    and len: "length gs = nat (2 * train_gen_per_epoch cfg)"
    and ok: "snd ?step = Inr loc'"
    by (auto split: if_splits)
  obtain w' where w': "?step = (w', Inr loc')"
    using ok by (cases ?step) simp
  from c1 c2 trick_call_generator [OF gs] len
  have "length (filter generator_predict (Predict Generator p # [c1, c2] @ gs)) = 1"
    "length (filter generator_call (Predict Generator p # [c1, c2] @ gs))
       = 1 + nat (2 * train_gen_per_epoch cfg)"
    by (auto simp: generator_predict_def generator_call_def)
  with trace w' show ?thesis
    by (intro exI [of _ w'] exI [of _ "Predict Generator p # [c1, c2] @ gs"] exI [of _ loc'])
      simp
qed

lemma train_steps_counts:
  fixes K :: "('o, 'img) keras" and S :: "'r sampler" and w :: "('o, 'r, 'img, 'fs) world"
  assumes "gate (last_epoch_gen_loss g) (maintain_gen_loss_below cfg) epoch"
    and "fixed_loss_length K k"
  shows "\<exists>new. calls (fst (train_steps K S cfg data g epoch indices loc w)) = calls w @ new
           \<and> length (filter generator_predict new) = length indices
           \<and> length (filter generator_call new)
               = length indices * (1 + nat (2 * train_gen_per_epoch cfg))"
proof (induction indices arbitrary: loc w)
  case Nil
  then show ?case by simp
next
  case (Cons index rest)
  from train_step_counts [OF assms, of S data index loc w]
  obtain w1 new loc' where step: "train_step K S cfg data g epoch index loc w = (w1, Inr loc')"
    and new: "calls w1 = calls w @ new"
      "length (filter generator_predict new) = 1"
      "length (filter generator_call new) = 1 + nat (2 * train_gen_per_epoch cfg)"
    by blast
  from Cons.IH [of loc' w1] obtain more where
    more: "calls (fst (train_steps K S cfg data g epoch rest loc' w1)) = calls w1 @ more"
      "length (filter generator_predict more) = length rest"
      "length (filter generator_call more)
         = length rest * (1 + nat (2 * train_gen_per_epoch cfg))"
    by blast
  have "train_steps K S cfg data g epoch (index # rest) loc w
          = train_steps K S cfg data g epoch rest loc' w1"
    using step by simp
  with new more show ?case
    by (intro exI [of _ "new @ more"]) simp
qed

lemma single_epoch_calls:
  "batch_size cfg \<noteq> 0 \<Longrightarrow>
     calls (fst (epochs K S OS cfg data last_epoch [epoch] g w))
       = calls (fst (train_gan K S cfg data g epoch
                       (int (length (first data) div batch_size cfg)) w))"
  by (simp add: Let_def save_epoch_calls split: prod.splits sum.splits)

text \<open>
  C3, amended. In a first run of one epoch with \<open>batch_size = 4\<close> on eight events, with
  models whose loss lists have one length, the epoch runs two training steps (each
  starts with one \<open>generator.predict\<close>), and the generator receives 2 predict calls and
  \<open>2 * (2 * train_gen_per_epoch)\<close> updates of the combined model, that is
  \<open>2 + 4 * train_gen_per_epoch\<close> calls for a count that is not negative.
\<close>

theorem scenario_generator_calls:
  fixes K :: "('o, 'img) keras" and S :: "'r sampler" and w :: "('o, 'r, 'img, 'fs) world"
  assumes "batch_size cfg = 4" and "nb_epochs cfg = 1" and "length (first data) = 8"
    and "fixed_loss_length K k"
  shows "length (filter generator_predict
           (drop (length (calls w)) (calls (fst (training K S OS cfg data (- 1) g w))))) = 2
         \<and> length (filter generator_call
             (drop (length (calls w)) (calls (fst (training K S OS cfg data (- 1) g w)))))
           = 2 + 4 * nat (train_gen_per_epoch cfg)"
proof -
  have gate0: "gate (last_epoch_gen_loss g) (maintain_gen_loss_below cfg) 0"
    by (simp add: gate_def split: option.splits)
  have "training K S OS cfg data (- 1) g w = epochs K S OS cfg data (- 1) [0] g w"
    using assms(2) by (simp add: training_def upto.simps)
  then have "calls (fst (training K S OS cfg data (- 1) g w))
               = calls (fst (train_gan K S cfg data g 0 2 w))"
    using assms(1,3) single_epoch_calls [of cfg K S OS data "- 1" 0 g w] by simp
  also have "\<dots> = calls (fst (train_steps K S cfg data g 0 [0, 1]
                               \<lparr>real_batch_loss = None, fake_batch_loss = None,
                                epoch_gen_loss = [], epoch_disc_loss = []\<rparr> w))"
    by (simp add: train_gan_calls upt_rec)
  finally have run: "calls (fst (training K S OS cfg data (- 1) g w))
                       = calls (fst (train_steps K S cfg data g 0 [0, 1]
                                       \<lparr>real_batch_loss = None, fake_batch_loss = None,
                                        epoch_gen_loss = [], epoch_disc_loss = []\<rparr> w))" .
  from train_steps_counts [OF gate0 assms(4), of S data "[0, 1]" _ w]
  obtain new where
    steps: "calls (fst (train_steps K S cfg data g 0 [0, 1]
                   \<lparr>real_batch_loss = None, fake_batch_loss = None,
                    epoch_gen_loss = [], epoch_disc_loss = []\<rparr> w)) = calls w @ new"
    and counts: "length (filter generator_predict new) = length [0, 1 :: nat]"
      "length (filter generator_call new)
         = length [0, 1 :: nat] * (1 + nat (2 * train_gen_per_epoch cfg))"
    by blast
  from run steps have "calls (fst (training K S OS cfg data (- 1) g w)) = calls w @ new"
    by (rule trans)
  then have "drop (length (calls w)) (calls (fst (training K S OS cfg data (- 1) g w))) = new"
    by simp
  with counts show ?thesis
    by (simp add: nat_mult_distrib)
qed

theorem scenario_generator_calls_witness:
  "batch_size example_config = 4 \<and> nb_epochs example_config = 1
   \<and> length (first example_data) = 8 \<and> fixed_loss_length example_keras 3
   \<and> length (filter generator_predict
        (drop (length (calls example_world))
           (calls (fst (training example_keras example_sampler example_os example_config
                          example_data (- 1)
                          \<lparr>last_epoch_gen_loss = None, last_epoch_disc_loss = None\<rparr>
                          example_world))))) = 2
   \<and> length (filter generator_call
        (drop (length (calls example_world))
           (calls (fst (training example_keras example_sampler example_os example_config
                          example_data (- 1)
                          \<lparr>last_epoch_gen_loss = None, last_epoch_disc_loss = None\<rparr>
                          example_world))))) = 6"
proof -
  have h1: "batch_size example_config = 4" and h2: "nb_epochs example_config = 1"
    and t: "train_gen_per_epoch example_config = 1"
    by (simp_all add: example_config_def)
  have h3: "length (first example_data) = 8"
    by (simp add: example_data_def)
  have h4: "fixed_loss_length example_keras 3"
    by (simp add: fixed_loss_length_def example_keras_def)
  from scenario_generator_calls [OF h1 h2 h3 h4, where S = example_sampler
      and w = example_world and OS = example_os
      and g = "\<lparr>last_epoch_gen_loss = None, last_epoch_disc_loss = None\<rparr>"]
    h1 h2 h3 h4 t
  show ?thesis
    by simp
qed

text \<open>
  With the default \<open>train_gen_per_epoch = 1\<close> the scenario's run makes six calls to the
  generator, not \<open>2 + 2 * 1\<close>.
\<close>

theorem scenario_generator_calls_counterexample:
  "length (filter generator_call
     (drop (length (calls example_world))
        (calls (fst (training example_keras example_sampler example_os example_config
                       example_data (- 1)
                       \<lparr>last_epoch_gen_loss = None, last_epoch_disc_loss = None\<rparr>
                       example_world)))))
   \<noteq> 2 + 2 * nat (train_gen_per_epoch example_config)"
  by code_simp

subsection \<open>The recorded generator loss\<close>

text \<open>
  C2 fails on the code. After an epoch whose mean generator loss is 3, the local
  \<open>last_epoch_gen_lss\<close> holds 3 and the module's \<open>last_epoch_gen_loss\<close> is still
  \<open>None\<close>; it is still \<open>None\<close> after a whole training run of two epochs.
\<close>

theorem recorded_generator_loss_unchanged:
  "snd (train_gan example_keras example_sampler example_config example_data
          \<lparr>last_epoch_gen_loss = None, last_epoch_disc_loss = None\<rparr> 0 2 example_world)
     = Inr (\<lparr>last_epoch_gen_loss = None, last_epoch_disc_loss = None\<rparr>,
            \<lparr>last_epoch_disc_loss_local = 3, last_epoch_gen_lss = 3\<rparr>)
   \<and> snd (training example_keras example_sampler example_os
            (example_config\<lparr>nb_epochs := 2\<rparr>) example_data (- 1)
            \<lparr>last_epoch_gen_loss = None, last_epoch_disc_loss = None\<rparr> example_world)
     = Inr \<lparr>last_epoch_gen_loss = None, last_epoch_disc_loss = None\<rparr>"
  by code_simp

subsection \<open>Checkpoint epoch discovery\<close>

lemma max_by_in: "max_by key x xs \<in> set (x # xs)"
  unfolding max_by_def by (induction xs arbitrary: x) auto

lemma max_by_bounds:
  "key x \<le> key (max_by key x xs) \<and> (\<forall>y \<in> set xs. key y \<le> key (max_by key x xs))"
proof (induction xs arbitrary: x)
  case Nil
  then show ?case by (simp add: max_by_def)
next
  case (Cons z zs)
  let ?b = "if key x < key z then z else x"
  have step: "max_by key x (z # zs) = max_by key ?b zs"
    by (simp add: max_by_def)
  have "key x \<le> key ?b" "key z \<le> key ?b"
    by simp_all
  with Cons.IH [of ?b] show ?case
    unfolding step by (auto intro: order_trans)
qed

lemma max_by_greatest: "y \<in> set (x # xs) \<Longrightarrow> key y \<le> key (max_by key x xs)"
  using max_by_bounds [of key x xs] by auto

lemma max_by_strict:
  assumes "m \<in> set (x # xs)" and "\<And>y. y \<in> set (x # xs) \<Longrightarrow> y \<noteq> m \<Longrightarrow> key y < key m"
  shows "max_by key x xs = m"
proof (rule ccontr)
  assume other: "max_by key x xs \<noteq> m"
  from assms(2) [OF max_by_in other] max_by_greatest [OF assms(1), of key]
  show False by simp
qed

lemma max_by_snoc:
  "max_by key x (xs @ [z])
     = (if key (max_by key x xs) < key z then z else max_by key x xs)"
  by (simp add: max_by_def)

lemma max_by_first:
  "\<exists>pre post. x # xs = pre @ max_by key x xs # post
      \<and> (\<forall>y \<in> set pre. key y < key (max_by key x xs))
      \<and> (\<forall>y \<in> set post. key y \<le> key (max_by key x xs))"
proof (induction xs rule: rev_induct)
  case Nil
  show ?case
    by (intro exI [of _ "[]"]) (simp add: max_by_def)
next
  case (snoc z xs)
  let ?m = "max_by key x xs"
  from snoc obtain pre post where split: "x # xs = pre @ ?m # post"
    and before: "\<forall>y \<in> set pre. key y < key ?m"
    and after: "\<forall>y \<in> set post. key y \<le> key ?m"
    by blast
  show ?case
  proof (cases "key ?m < key z")
    case True
    have "key y < key z" if "y \<in> set (x # xs)" for y
      using max_by_greatest [OF that, of key] True by simp
    then have "\<forall>y \<in> set (x # xs). key y < key z"
      by blast
    with True show ?thesis
      unfolding max_by_snoc
      by (intro exI [of _ "x # xs"] exI [of _ "[]"]) simp
  next
    case False
    with split before after show ?thesis
      unfolding max_by_snoc
      by (intro exI [of _ pre] exI [of _ "post @ [z]"]) auto
  qed
qed

lemma digit_not_space: "is_digit ch \<Longrightarrow> \<not> is_space ch"
  by (auto simp: is_digit_def is_space_def)

lemma split_from_word:
  "word \<noteq> [] \<Longrightarrow>
     \<exists>rest. split_from word (map (\<lambda>ch. if is_digit ch then ch else CHR '' '') name)
              = (word @ takeWhile is_digit name) # rest"
proof (induction name arbitrary: word)
  case Nil
  then show ?case by simp
next
  case (Cons ch name)
  show ?case
  proof (cases "is_digit ch")
    case True
    with Cons.IH [of "word @ [ch]"] show ?thesis
      by (simp add: digit_not_space)
  next
    case False
    with Cons.prems show ?thesis
      by (simp add: is_space_def)
  qed
qed

lemma py_split_first_run:
  "case py_split (map (\<lambda>ch. if is_digit ch then ch else CHR '' '') name) of
     [] \<Rightarrow> first_digit_run name = []
   | i # rest \<Rightarrow> i = first_digit_run name \<and> i \<noteq> []"
  unfolding py_split_def first_digit_run_def
proof (induction name)
  case Nil
  then show ?case by simp
next
  case (Cons ch name)
  show ?case
  proof (cases "is_digit ch")
    case True
    from split_from_word [of "[ch]" name] obtain rest where
      "split_from [ch] (map (\<lambda>ch. if is_digit ch then ch else CHR '' '') name)
         = ([ch] @ takeWhile is_digit name) # rest"
      by blast
    with True show ?thesis
      by (simp add: digit_not_space)
  next
    case False
    with Cons.IH show ?thesis
      by (simp add: is_space_def split: list.splits)
  qed
qed

lemma getLastEpoch_chosen:
  assumes "glob OS fs pattern = f # others"
    and "first_digit_run (max_by (getctime OS fs) f others) \<noteq> []"
    and "digits_value (first_digit_run (max_by (getctime OS fs) f others)) < 2 ^ 53"
  shows "getLastEpoch OS fs pattern
           = Inr (digits_value (first_digit_run (max_by (getctime OS fs) f others)))"
proof -
  let ?latest = "max_by (getctime OS fs) f others"
  from py_split_first_run [of ?latest] assms(2)
  obtain rest where
    "py_split (map (\<lambda>ch. if is_digit ch then ch else CHR '' '') ?latest)
       = first_digit_run ?latest # rest"
    by (auto split: list.splits)
  with assms(1,3) show ?thesis
    by (simp add: getLastEpoch_def int_of_float_def round_to_double_def)
qed

text \<open>
  C4, amended. \<open>getLastEpoch\<close> returns -1 when no file matches. When files match, the
  chosen file is the first one in the order of \<open>glob\<close> among those with the latest time
  stamp: every file listed before it is strictly older and no file listed after it is
  newer. If its name holds a digit and its first maximal run of digits spells a number
  below \<open>2^53\<close>, that number is returned. For the three files \<open>g_0001_000.weights\<close>,
  \<open>g_0007_000.weights\<close> and \<open>g_0003_000.weights\<close>, listed in any order, the result is 7
  whenever \<open>g_0007_000.weights\<close> is strictly newer than the other two, whatever ties
  there are among the older files.
\<close>

theorem epoch_discovery:
  "(glob OS fs pattern = [] \<longrightarrow> getLastEpoch OS fs pattern = Inr (- 1))
   \<and> (\<forall>f others.
         glob OS fs pattern = f # others \<longrightarrow>
           max_by (getctime OS fs) f others \<in> set (f # others)
           \<and> (\<forall>name \<in> set (f # others).
                 getctime OS fs name \<le> getctime OS fs (max_by (getctime OS fs) f others))
           \<and> (\<exists>listed_before listed_after.
                 f # others = listed_before @ max_by (getctime OS fs) f others # listed_after
                 \<and> (\<forall>name \<in> set listed_before.
                       getctime OS fs name < getctime OS fs (max_by (getctime OS fs) f others))
                 \<and> (\<forall>name \<in> set listed_after.
                       getctime OS fs name \<le> getctime OS fs (max_by (getctime OS fs) f others)))
           \<and> (first_digit_run (max_by (getctime OS fs) f others) \<noteq> []
                \<and> digits_value (first_digit_run (max_by (getctime OS fs) f others)) < 2 ^ 53
               \<longrightarrow> getLastEpoch OS fs pattern
                     = Inr (digits_value (first_digit_run (max_by (getctime OS fs) f others)))))
   \<and> (set (glob OS fs pattern)
         = {''g_0001_000.weights'', ''g_0007_000.weights'', ''g_0003_000.weights''}
        \<and> getctime OS fs ''g_0001_000.weights'' < getctime OS fs ''g_0007_000.weights''
        \<and> getctime OS fs ''g_0003_000.weights'' < getctime OS fs ''g_0007_000.weights''
       \<longrightarrow> getLastEpoch OS fs pattern = Inr 7)"
proof (intro conjI allI impI ballI)
  assume "glob OS fs pattern = []"
  then show "getLastEpoch OS fs pattern = Inr (- 1)"
    by (simp add: getLastEpoch_def)
next
  fix f others
  show "max_by (getctime OS fs) f others \<in> set (f # others)"
    by (rule max_by_in)
next
  fix f others and name :: string
  assume "name \<in> set (f # others)"
  then show "getctime OS fs name \<le> getctime OS fs (max_by (getctime OS fs) f others)"
    by (rule max_by_greatest)
next
  fix f others
  show "\<exists>listed_before listed_after.
          f # others = listed_before @ max_by (getctime OS fs) f others # listed_after
          \<and> (\<forall>name \<in> set listed_before.
                getctime OS fs name < getctime OS fs (max_by (getctime OS fs) f others))
          \<and> (\<forall>name \<in> set listed_after.
                getctime OS fs name \<le> getctime OS fs (max_by (getctime OS fs) f others))"
    by (rule max_by_first)
next
  fix f others
  assume "glob OS fs pattern = f # others"
    and "first_digit_run (max_by (getctime OS fs) f others) \<noteq> []
         \<and> digits_value (first_digit_run (max_by (getctime OS fs) f others)) < 2 ^ 53"
  then show "getLastEpoch OS fs pattern
               = Inr (digits_value (first_digit_run (max_by (getctime OS fs) f others)))"
    by (simp add: getLastEpoch_chosen)
next
  let ?g7 = "''g_0007_000.weights''"
  assume three: "set (glob OS fs pattern)
                   = {''g_0001_000.weights'', ''g_0007_000.weights'', ''g_0003_000.weights''}
                 \<and> getctime OS fs ''g_0001_000.weights'' < getctime OS fs ''g_0007_000.weights''
                 \<and> getctime OS fs ''g_0003_000.weights'' < getctime OS fs ''g_0007_000.weights''"
  then obtain f others where listed: "glob OS fs pattern = f # others"
    by (cases "glob OS fs pattern") auto
  have "max_by (getctime OS fs) f others = ?g7"
  proof (rule max_by_strict)
    show "?g7 \<in> set (f # others)"
      using three listed by auto
    fix y
    assume "y \<in> set (f # others)" and "y \<noteq> ?g7"
    with three listed show "getctime OS fs y < getctime OS fs ?g7"
      by auto
  qed
  moreover have "first_digit_run ?g7 = ''0007''"
    by (simp add: first_digit_run_def is_digit_def)
  moreover have "digits_value ''0007'' = 7"
    by (simp add: digits_value_def digit_value_def)
  ultimately show "getLastEpoch OS fs pattern = Inr 7"
    using getLastEpoch_chosen [OF listed] by simp
qed

theorem epoch_discovery_witness:
  "glob example_os () ''g_*_000.weights'' = []
   \<and> getLastEpoch example_os () ''g_*_000.weights'' = Inr (- 1)
   \<and> glob newest_last_os () ''g_*_000.weights''
       = [''g_0001_000.weights'', ''g_0007_000.weights'', ''g_0003_000.weights'']
   \<and> max_by (getctime newest_last_os ()) ''g_0001_000.weights''
        [''g_0007_000.weights'', ''g_0003_000.weights''] = ''g_0007_000.weights''
   \<and> first_digit_run ''g_0007_000.weights'' = ''0007''
   \<and> digits_value ''0007'' < 2 ^ 53
   \<and> getctime newest_last_os () ''g_0001_000.weights''
       = getctime newest_last_os () ''g_0003_000.weights''
   \<and> getctime newest_last_os () ''g_0003_000.weights''
       < getctime newest_last_os () ''g_0007_000.weights''
   \<and> getLastEpoch newest_last_os () ''g_*_000.weights'' = Inr 7
   \<and> glob tied_files_os () ''g_*_000.weights''
       = [''g_0003_000.weights'', ''g_0007_000.weights'', ''g_0001_000.weights'']
   \<and> getctime tied_files_os () ''g_0003_000.weights''
       = getctime tied_files_os () ''g_0007_000.weights''
   \<and> getctime tied_files_os () ''g_0001_000.weights''
       < getctime tied_files_os () ''g_0003_000.weights''
   \<and> max_by (getctime tied_files_os ()) ''g_0003_000.weights''
        [''g_0007_000.weights'', ''g_0001_000.weights''] = ''g_0003_000.weights''
   \<and> first_digit_run ''g_0003_000.weights'' = ''0003''
   \<and> digits_value ''0003'' < 2 ^ 53
   \<and> getLastEpoch tied_files_os () ''g_*_000.weights'' = Inr 3"
proof -
  have none: "glob example_os () ''g_*_000.weights'' = []"
    by (simp add: example_os_def)
  have listed: "glob newest_last_os () ''g_*_000.weights''
                  = [''g_0001_000.weights'', ''g_0007_000.weights'', ''g_0003_000.weights'']"
    by (simp add: newest_last_os_def)
  have chosen: "max_by (getctime newest_last_os ()) ''g_0001_000.weights''
                  [''g_0007_000.weights'', ''g_0003_000.weights''] = ''g_0007_000.weights''"
    by (simp add: max_by_def newest_last_os_def)
  have run: "first_digit_run ''g_0007_000.weights'' = ''0007''"
    by (simp add: first_digit_run_def is_digit_def)
  have small: "digits_value ''0007'' < 2 ^ 53" and seven: "digits_value ''0007'' = 7"
    by (simp_all add: digits_value_def digit_value_def)
  have times: "getctime newest_last_os () ''g_0001_000.weights''
                 = getctime newest_last_os () ''g_0003_000.weights''"
    "getctime newest_last_os () ''g_0001_000.weights''
       < getctime newest_last_os () ''g_0007_000.weights''"
    "getctime newest_last_os () ''g_0003_000.weights''
       < getctime newest_last_os () ''g_0007_000.weights''"
    by (simp_all add: newest_last_os_def)
  have names: "set (glob newest_last_os () ''g_*_000.weights'')
                 = {''g_0001_000.weights'', ''g_0007_000.weights'', ''g_0003_000.weights''}"
    unfolding listed by simp
  have tied_listed: "glob tied_files_os () ''g_*_000.weights''
                  = [''g_0003_000.weights'', ''g_0007_000.weights'', ''g_0001_000.weights'']"
    by (simp add: tied_files_os_def)
  have tied_times: "getctime tied_files_os () ''g_0003_000.weights''
                      = getctime tied_files_os () ''g_0007_000.weights''"
    "getctime tied_files_os () ''g_0001_000.weights''
       < getctime tied_files_os () ''g_0003_000.weights''"
    by (simp_all add: tied_files_os_def)
  have tied_chosen: "max_by (getctime tied_files_os ()) ''g_0003_000.weights''
                  [''g_0007_000.weights'', ''g_0001_000.weights''] = ''g_0003_000.weights''"
    by (simp add: max_by_def tied_files_os_def)
  have tied_run: "first_digit_run ''g_0003_000.weights'' = ''0003''"
    by (simp add: first_digit_run_def is_digit_def)
  have tied_small: "digits_value ''0003'' < 2 ^ 53" and three: "digits_value ''0003'' = 3"
    by (simp_all add: digits_value_def digit_value_def)
  from epoch_discovery [of example_os "()" "''g_*_000.weights''"] none
  have first: "getLastEpoch example_os () ''g_*_000.weights'' = Inr (- 1)"
    by blast
  from epoch_discovery [of newest_last_os "()" "''g_*_000.weights''"] names times
  have third: "getLastEpoch newest_last_os () ''g_*_000.weights'' = Inr 7"
    by blast
  from epoch_discovery [of tied_files_os "()" "''g_*_000.weights''"]
  have "glob tied_files_os () ''g_*_000.weights''
          = ''g_0003_000.weights'' # [''g_0007_000.weights'', ''g_0001_000.weights''] \<longrightarrow>
        first_digit_run (max_by (getctime tied_files_os ()) ''g_0003_000.weights''
                           [''g_0007_000.weights'', ''g_0001_000.weights'']) \<noteq> []
        \<and> digits_value (first_digit_run (max_by (getctime tied_files_os ())
                           ''g_0003_000.weights''
                           [''g_0007_000.weights'', ''g_0001_000.weights''])) < 2 ^ 53 \<longrightarrow>
        getLastEpoch tied_files_os () ''g_*_000.weights''
          = Inr (digits_value (first_digit_run (max_by (getctime tied_files_os ())
                           ''g_0003_000.weights''
                           [''g_0007_000.weights'', ''g_0001_000.weights''])))"
    by blast
  with tied_listed tied_small three
  have tied: "getLastEpoch tied_files_os () ''g_*_000.weights'' = Inr 3"
    unfolding tied_chosen tied_run by simp
  from none first listed chosen run small times third
    tied_listed tied_times tied_chosen tied_run tied_small tied
  show ?thesis
    by blast
qed

text \<open>
  When the two newest of the three files share a time stamp and \<open>glob\<close> lists
  \<open>g_0003_000.weights\<close> before \<open>g_0007_000.weights\<close>, the result is 3, although no file
  with a smaller epoch is newer than one with a greater epoch.
\<close>

theorem epoch_discovery_counterexample:
  "set (glob tied_files_os () ''g_*_000.weights'')
     = {''g_0001_000.weights'', ''g_0007_000.weights'', ''g_0003_000.weights''}
   \<and> getctime tied_files_os () ''g_0001_000.weights''
       \<le> getctime tied_files_os () ''g_0003_000.weights''
   \<and> getctime tied_files_os () ''g_0003_000.weights''
       \<le> getctime tied_files_os () ''g_0007_000.weights''
   \<and> getLastEpoch tied_files_os () ''g_*_000.weights'' = Inr 3
   \<and> getLastEpoch tied_files_os () ''g_*_000.weights'' \<noteq> Inr 7"
proof -
  have "getLastEpoch tied_files_os () ''g_*_000.weights'' = Inr 3"
    by code_simp
  then show ?thesis
    by (auto simp: tied_files_os_def)
qed

subsection \<open>Missing checkpoint files\<close>

lemma generator_updates_files:
  "files (snd (generator_updates K S cfg C n gl w)) = files w"
  by (induction n arbitrary: gl w) (simp_all add: Let_def split: prod.splits)

lemma train_step_files:
  "files (fst (train_step K S cfg data g epoch index loc w)) = files w"
  unfolding train_step_def
  by (simp add: Let_def split_beta generator_updates_files
      split: option.splits sum.splits)

lemma train_steps_files:
  "files (fst (train_steps K S cfg data g epoch indices loc w)) = files w"
proof (induction indices arbitrary: loc w)
  case Nil
  then show ?case by simp
next
  case (Cons index rest)
  obtain w' res where step: "train_step K S cfg data g epoch index loc w = (w', res)"
    by (cases "train_step K S cfg data g epoch index loc w")
  with train_step_files [of K S cfg data g epoch index loc w] have "files w' = files w"
    by simp
  with step Cons.IH show ?case
    by (cases res) simp_all
qed

lemma train_gan_files:
  "files (fst (train_gan K S cfg data g epoch nb_batches w)) = files w"
proof -
  have "files (fst (train_gan K S cfg data g epoch nb_batches w))
          = files (fst (train_steps K S cfg data g epoch [0..<nat nb_batches]
                          \<lparr>real_batch_loss = None, fake_batch_loss = None,
                           epoch_gen_loss = [], epoch_disc_loss = []\<rparr> w))"
    by (simp add: train_gan_def split: prod.splits sum.splits)
  then show ?thesis
    by (simp add: train_steps_files)
qed

lemma starts_with_append: "starts_with part (part @ rest)"
  by (induction part) simp_all

lemma contains_middle: "contains part (before @ part @ rest)"
proof (induction before)
  case Nil
  show ?case
    by (cases "part @ rest") (use starts_with_append [of part rest] in auto)
next
  case (Cons x before)
  then show ?case by simp
qed

lemma not_found_names_file:
  "\<exists>msg. not_found what filename = Exception msg \<and> contains filename msg"
  unfolding not_found_def using contains_middle [of filename "what @ '' file ''" "'' not found''"]
  by simp

lemma load_optimizer_states_missing:
  fixes K :: "('o, 'img) keras" and S :: "'r sampler" and w :: "('o, 'r, 'img, 'fs) world"
  assumes "load_model cfg" and "last_epoch > - 1"
    and dummy: "train_gan K S cfg data g 0 1 w = (w1, Inr r)"
    and missing: "find (\<lambda>f. glob OS (files w) f = [])
            [checkpoint_name (g_pfx cfg) last_epoch (rank_to_load cfg) ''.optimizer'',
             checkpoint_name (d_pfx cfg) last_epoch (rank_to_load cfg) ''.optimizer'',
             checkpoint_name (c_pfx cfg) last_epoch (rank_to_load cfg) ''.optimizer'']
          = Some missing"
  shows "\<exists>w' msg. load_optimizer_states K S OS cfg data g last_epoch w
                     = (w', Inl (Exception msg))
           \<and> contains missing msg \<and> calls w' = calls w1"
proof -
  let ?G = "checkpoint_name (g_pfx cfg) last_epoch (rank_to_load cfg) ''.optimizer''"
  let ?D = "checkpoint_name (d_pfx cfg) last_epoch (rank_to_load cfg) ''.optimizer''"
  let ?C = "checkpoint_name (c_pfx cfg) last_epoch (rank_to_load cfg) ''.optimizer''"
  from train_gan_files [of K S cfg data g 0 1 w] dummy have same: "files w1 = files w"
    by simp
  obtain gm where gm: "not_found ''Generator optimizer state'' ?G = Exception gm"
      "contains ?G gm"
    using not_found_names_file by blast
  obtain dm where dm: "not_found ''Discriminator optimizer state'' ?D = Exception dm"
      "contains ?D dm"
    using not_found_names_file by blast
  obtain cm where cm: "not_found ''Combined optimizer state'' ?C = Exception cm"
      "contains ?C cm"
    using not_found_names_file by blast
  consider (g) "glob OS (files w) ?G = []" "missing = ?G"
    | (d) "glob OS (files w) ?G \<noteq> []" "glob OS (files w) ?D = []" "missing = ?D"
    | (c) "glob OS (files w) ?G \<noteq> []" "glob OS (files w) ?D \<noteq> []"
          "glob OS (files w) ?C = []" "missing = ?C"
    using missing by (auto split: if_splits)
  then show ?thesis
  proof cases
    case g
    with assms(1,2) dummy same gm show ?thesis
      by (simp add: load_optimizer_states_def Let_def)
  next
    case d
    with assms(1,2) dummy same dm show ?thesis
      by (simp add: load_optimizer_states_def Let_def)
  next
    case c
    with assms(1,2) dummy same cm show ?thesis
      by (simp add: load_optimizer_states_def Let_def)
  qed
qed

lemma load_checkpoint_weights_missing:
  fixes w :: "('o, 'r, 'img, 'fs) world"
  assumes "load_weights cfg \<or> load_model cfg" and "last_epoch > - 1"
    and target: "(if \<not> load_model cfg
                  then getLastEpoch OS (files w) (d_pfx cfg @ ''*.weights'')
                  else Inr last_epoch) = Inr target"
    and missing: "find (\<lambda>f. glob OS (files w) f = [])
            [checkpoint_name (g_pfx cfg) target (rank_to_load cfg) ''.weights'',
             checkpoint_name (d_pfx cfg) target (rank_to_load cfg) ''.weights'']
          = Some missing"
  shows "\<exists>w' msg. load_checkpoint_weights OS cfg last_epoch w = (w', Inl (Exception msg))
           \<and> contains missing msg \<and> calls w' = calls w"
proof -
  let ?G = "checkpoint_name (g_pfx cfg) target (rank_to_load cfg) ''.weights''"
  let ?D = "checkpoint_name (d_pfx cfg) target (rank_to_load cfg) ''.weights''"
  obtain gm where gm: "not_found ''Generator weights'' ?G = Exception gm" "contains ?G gm"
    using not_found_names_file by blast
  obtain dm where dm: "not_found ''Generator weights'' ?D = Exception dm" "contains ?D dm"
    using not_found_names_file by blast
  consider (g) "glob OS (files w) ?G = []" "missing = ?G"
    | (d) "glob OS (files w) ?G \<noteq> []" "glob OS (files w) ?D = []" "missing = ?D"
    using missing by (auto split: if_splits)
  then show ?thesis
  proof cases
    case g
    with assms(1,2) gm show ?thesis
      unfolding load_checkpoint_weights_def target by (simp add: Let_def)
  next
    case d
    with assms(1,2) dm show ?thesis
      unfolding load_checkpoint_weights_def target by (simp add: Let_def)
  qed
qed

text \<open>
  C9. A resume that has found its target epoch stops with an exception that names a
  missing file, and the training loop is not entered. With \<open>load_model\<close>: the epoch is
  read from the combined model's optimizer files of the rank, one dummy epoch of one
  batch runs, and if any of the generator's, the discriminator's and the combined
  model's optimizer files is missing, the run raises and the message holds the name of
  the first of them that is missing. With \<open>load_weights\<close> alone: if the generator's or
  the discriminator's weights file is missing, the run raises and the message holds the
  name of the first of them that is missing. In both cases no model is called after
  the check.
\<close>

theorem missing_checkpoint_is_fatal:
  fixes K :: "('o, 'img) keras" and S :: "'r sampler" and w :: "('o, 'r, 'img, 'fs) world"
    and OS :: "('fs, 'o) os" and cfg :: config and data :: "'img dataset"
  defines "g0 \<equiv> \<lparr>last_epoch_gen_loss = None, last_epoch_disc_loss = None\<rparr>"
  defines "rank \<equiv> rank_to_load cfg"
  shows "(load_model cfg
          \<and> getLastEpoch OS (files w) (c_pfx cfg @ ''*_'' @ format_d 3 rank @ ''.optimizer'')
              = Inr e
          \<and> e > - 1
          \<and> (\<exists>r. snd (train_gan K S cfg data g0 0 1 w) = Inr r)
          \<and> missing \<in> set [checkpoint_name (g_pfx cfg) e rank ''.optimizer'',
                             checkpoint_name (d_pfx cfg) e rank ''.optimizer'',
                             checkpoint_name (c_pfx cfg) e rank ''.optimizer'']
          \<and> glob OS (files w) missing = []
          \<longrightarrow> (\<exists>msg named.
                  snd (run K S OS cfg data w) = Inl (Exception msg)
                  \<and> find (\<lambda>f. glob OS (files w) f = [])
                        [checkpoint_name (g_pfx cfg) e rank ''.optimizer'',
                         checkpoint_name (d_pfx cfg) e rank ''.optimizer'',
                         checkpoint_name (c_pfx cfg) e rank ''.optimizer''] = Some named
                  \<and> contains named msg)
              \<and> calls (fst (run K S OS cfg data w))
                  = calls (fst (train_gan K S cfg data g0 0 1 w)))
         \<and> (load_weights cfg \<and> \<not> load_model cfg
             \<and> getLastEpoch OS (files w) (d_pfx cfg @ ''*_'' @ format_d 3 rank @ ''.weights'')
                 = Inr e1
             \<and> e1 > - 1
             \<and> getLastEpoch OS (files w) (d_pfx cfg @ ''*.weights'') = Inr e
             \<and> missing \<in> set [checkpoint_name (g_pfx cfg) e rank ''.weights'',
                                checkpoint_name (d_pfx cfg) e rank ''.weights'']
             \<and> glob OS (files w) missing = []
             \<longrightarrow> (\<exists>msg named.
                     snd (run K S OS cfg data w) = Inl (Exception msg)
                     \<and> find (\<lambda>f. glob OS (files w) f = [])
                           [checkpoint_name (g_pfx cfg) e rank ''.weights'',
                            checkpoint_name (d_pfx cfg) e rank ''.weights''] = Some named
                     \<and> contains named msg)
                 \<and> calls (fst (run K S OS cfg data w)) = calls w)"
proof (intro conjI impI)
  let ?required = "[checkpoint_name (g_pfx cfg) e rank ''.optimizer'',
                    checkpoint_name (d_pfx cfg) e rank ''.optimizer'',
                    checkpoint_name (c_pfx cfg) e rank ''.optimizer'']"
  assume opt: "load_model cfg
          \<and> getLastEpoch OS (files w) (c_pfx cfg @ ''*_'' @ format_d 3 rank @ ''.optimizer'')
              = Inr e
          \<and> e > - 1
          \<and> (\<exists>r. snd (train_gan K S cfg data g0 0 1 w) = Inr r)
          \<and> missing \<in> set ?required
          \<and> glob OS (files w) missing = []"
  then obtain w1 r where dummy: "train_gan K S cfg data g0 0 1 w = (w1, Inr r)"
    by (cases "train_gan K S cfg data g0 0 1 w") auto
  from opt have "find (\<lambda>f. glob OS (files w) f = []) ?required \<noteq> None"
    unfolding find_None_iff by blast
  then obtain named where named: "find (\<lambda>f. glob OS (files w) f = []) ?required = Some named"
    by blast
  from opt load_optimizer_states_missing [OF _ _ dummy, of e OS named] named
  obtain w' msg where stage: "load_optimizer_states K S OS cfg data g0 e w
                                = (w', Inl (Exception msg))"
    and msg: "contains named msg" and same: "calls w' = calls w1"
    unfolding rank_def by blast
  have "run K S OS cfg data w = (w', Inl (Exception msg))"
    using opt stage unfolding run_def resume_def g0_def [symmetric] rank_def
    by (simp add: Let_def)
  with msg same dummy named
  show "\<exists>msg named.
          snd (run K S OS cfg data w) = Inl (Exception msg)
          \<and> find (\<lambda>f. glob OS (files w) f = []) ?required = Some named
          \<and> contains named msg"
    and "calls (fst (run K S OS cfg data w)) = calls (fst (train_gan K S cfg data g0 0 1 w))"
    by simp_all
next
  let ?required = "[checkpoint_name (g_pfx cfg) e rank ''.weights'',
                    checkpoint_name (d_pfx cfg) e rank ''.weights'']"
  assume wts: "load_weights cfg \<and> \<not> load_model cfg
             \<and> getLastEpoch OS (files w) (d_pfx cfg @ ''*_'' @ format_d 3 rank @ ''.weights'')
                 = Inr e1
             \<and> e1 > - 1
             \<and> getLastEpoch OS (files w) (d_pfx cfg @ ''*.weights'') = Inr e
             \<and> missing \<in> set ?required
             \<and> glob OS (files w) missing = []"
  then have target: "(if \<not> load_model cfg
                       then getLastEpoch OS (files w) (d_pfx cfg @ ''*.weights'')
                       else Inr e1) = Inr e"
    by simp
  from wts have "find (\<lambda>f. glob OS (files w) f = []) ?required \<noteq> None"
    unfolding find_None_iff by blast
  then obtain named where named: "find (\<lambda>f. glob OS (files w) f = []) ?required = Some named"
    by blast
  from wts load_checkpoint_weights_missing [OF _ _ target, of named] named
  obtain w' msg where stage: "load_checkpoint_weights OS cfg e1 w = (w', Inl (Exception msg))"
    and msg: "contains named msg" and same: "calls w' = calls w"
    unfolding rank_def by blast
  have "run K S OS cfg data w = (w', Inl (Exception msg))"
    using wts stage unfolding run_def resume_def rank_def
    by (simp add: Let_def load_optimizer_states_def)
  with msg same named
  show "\<exists>msg named.
          snd (run K S OS cfg data w) = Inl (Exception msg)
          \<and> find (\<lambda>f. glob OS (files w) f = []) ?required = Some named
          \<and> contains named msg"
    and "calls (fst (run K S OS cfg data w)) = calls w"
    by simp_all
qed

theorem missing_checkpoint_is_fatal_witness:
  "load_model (example_config\<lparr>load_model := True\<rparr>)
   \<and> getLastEpoch optimizer_only_os (files example_world)
         ''params_combined_epoch_*_000.optimizer'' = Inr 7
   \<and> snd (train_gan example_keras example_sampler (example_config\<lparr>load_model := True\<rparr>)
            example_data \<lparr>last_epoch_gen_loss = None, last_epoch_disc_loss = None\<rparr> 0 1
            example_world)
       = Inr (\<lparr>last_epoch_gen_loss = None, last_epoch_disc_loss = None\<rparr>,
              \<lparr>last_epoch_disc_loss_local = 3, last_epoch_gen_lss = 3\<rparr>)
   \<and> glob optimizer_only_os (files example_world)
         ''params_discriminator_epoch_0007_000.optimizer'' = []
   \<and> find (\<lambda>f. glob optimizer_only_os (files example_world) f = [])
         [''params_generator_epoch_0007_000.optimizer'',
          ''params_discriminator_epoch_0007_000.optimizer'',
          ''params_combined_epoch_0007_000.optimizer'']
       = Some ''params_generator_epoch_0007_000.optimizer''
   \<and> snd (run example_keras example_sampler optimizer_only_os
            (example_config\<lparr>load_model := True\<rparr>) example_data example_world)
       = Inl (Exception
           ''Generator optimizer state file params_generator_epoch_0007_000.optimizer not found'')
   \<and> contains ''params_generator_epoch_0007_000.optimizer''
         ''Generator optimizer state file params_generator_epoch_0007_000.optimizer not found''
   \<and> load_weights (example_config\<lparr>load_weights := True\<rparr>)
   \<and> \<not> load_model (example_config\<lparr>load_weights := True\<rparr>)
   \<and> getLastEpoch stale_rank_os (files example_world)
         ''params_discriminator_epoch_*_000.weights'' = Inr 7
   \<and> getLastEpoch stale_rank_os (files example_world)
         ''params_discriminator_epoch_*.weights'' = Inr 9
   \<and> glob stale_rank_os (files example_world)
         ''params_discriminator_epoch_0009_000.weights'' = []
   \<and> find (\<lambda>f. glob stale_rank_os (files example_world) f = [])
         [''params_generator_epoch_0009_000.weights'',
          ''params_discriminator_epoch_0009_000.weights'']
       = Some ''params_discriminator_epoch_0009_000.weights''
   \<and> snd (run example_keras example_sampler stale_rank_os
            (example_config\<lparr>load_weights := True\<rparr>) example_data example_world)
       = Inl (Exception
           ''Generator weights file params_discriminator_epoch_0009_000.weights not found'')
   \<and> contains ''params_discriminator_epoch_0009_000.weights''
         ''Generator weights file params_discriminator_epoch_0009_000.weights not found''
   \<and> calls (fst (run example_keras example_sampler stale_rank_os
                   (example_config\<lparr>load_weights := True\<rparr>) example_data example_world)) = []"
proof -
  let ?co = "example_config\<lparr>load_model := True\<rparr>"
  let ?cw = "example_config\<lparr>load_weights := True\<rparr>"
  let ?g0 = "\<lparr>last_epoch_gen_loss = None, last_epoch_disc_loss = None\<rparr>"
  have names:
    "c_pfx ?co @ ''*_'' @ format_d 3 (rank_to_load ?co) @ ''.optimizer''
       = ''params_combined_epoch_*_000.optimizer''"
    "checkpoint_name (g_pfx ?co) 7 (rank_to_load ?co) ''.optimizer''
       = ''params_generator_epoch_0007_000.optimizer''"
    "checkpoint_name (d_pfx ?co) 7 (rank_to_load ?co) ''.optimizer''
       = ''params_discriminator_epoch_0007_000.optimizer''"
    "checkpoint_name (c_pfx ?co) 7 (rank_to_load ?co) ''.optimizer''
       = ''params_combined_epoch_0007_000.optimizer''"
    "d_pfx ?cw @ ''*_'' @ format_d 3 (rank_to_load ?cw) @ ''.weights''
       = ''params_discriminator_epoch_*_000.weights''"
    "d_pfx ?cw @ ''*.weights'' = ''params_discriminator_epoch_*.weights''"
    "checkpoint_name (g_pfx ?cw) 9 (rank_to_load ?cw) ''.weights''
       = ''params_generator_epoch_0009_000.weights''"
    "checkpoint_name (d_pfx ?cw) 9 (rank_to_load ?cw) ''.weights''
       = ''params_discriminator_epoch_0009_000.weights''"
    by code_simp+
  have o1: "load_model ?co" and w1: "load_weights ?cw" and w2: "\<not> load_model ?cw"
    by (simp_all add: example_config_def)
  have o2: "getLastEpoch optimizer_only_os (files example_world)
              ''params_combined_epoch_*_000.optimizer'' = Inr 7"
    by code_simp
  have o3: "snd (train_gan example_keras example_sampler ?co example_data ?g0 0 1 example_world)
              = Inr (?g0, \<lparr>last_epoch_disc_loss_local = 3, last_epoch_gen_lss = 3\<rparr>)"
    by code_simp
  have o4: "glob optimizer_only_os (files example_world)
              ''params_discriminator_epoch_0007_000.optimizer'' = []"
    by code_simp
  have o5: "find (\<lambda>f. glob optimizer_only_os (files example_world) f = [])
              [''params_generator_epoch_0007_000.optimizer'',
               ''params_discriminator_epoch_0007_000.optimizer'',
               ''params_combined_epoch_0007_000.optimizer'']
            = Some ''params_generator_epoch_0007_000.optimizer''"
    by code_simp
  have o6: "snd (run example_keras example_sampler optimizer_only_os ?co example_data
                   example_world)
         = Inl (Exception
             ''Generator optimizer state file params_generator_epoch_0007_000.optimizer not found'')"
    by code_simp
  have w3: "getLastEpoch stale_rank_os (files example_world)
              ''params_discriminator_epoch_*_000.weights'' = Inr 7"
    by code_simp
  have w4: "getLastEpoch stale_rank_os (files example_world)
              ''params_discriminator_epoch_*.weights'' = Inr 9"
    by code_simp
  have w5: "glob stale_rank_os (files example_world)
              ''params_discriminator_epoch_0009_000.weights'' = []"
    by code_simp
  have w6: "find (\<lambda>f. glob stale_rank_os (files example_world) f = [])
              [''params_generator_epoch_0009_000.weights'',
               ''params_discriminator_epoch_0009_000.weights'']
            = Some ''params_discriminator_epoch_0009_000.weights''"
    by code_simp
  have w7: "snd (run example_keras example_sampler stale_rank_os ?cw example_data example_world)
         = Inl (Exception
             ''Generator weights file params_discriminator_epoch_0009_000.weights not found'')"
    by code_simp
  have start: "calls example_world = []"
    by (simp add: example_world_def)
  from missing_checkpoint_is_fatal [where K = example_keras and S = example_sampler
      and OS = optimizer_only_os and cfg = ?co and data = example_data and w = example_world
      and e = 7 and missing = "''params_discriminator_epoch_0007_000.optimizer''"]
    o1 o2 o3 o4
  have "\<exists>msg named.
          snd (run example_keras example_sampler optimizer_only_os ?co example_data
                 example_world) = Inl (Exception msg)
          \<and> find (\<lambda>f. glob optimizer_only_os (files example_world) f = [])
                [''params_generator_epoch_0007_000.optimizer'',
                 ''params_discriminator_epoch_0007_000.optimizer'',
                 ''params_combined_epoch_0007_000.optimizer''] = Some named
          \<and> contains named msg"
    unfolding names by simp
  with o5 o6 have o7: "contains ''params_generator_epoch_0007_000.optimizer''
      ''Generator optimizer state file params_generator_epoch_0007_000.optimizer not found''"
    by auto
  from missing_checkpoint_is_fatal [where K = example_keras and S = example_sampler
      and OS = stale_rank_os and cfg = ?cw and data = example_data and w = example_world
      and e = 9 and ?e1.0 = 7 and missing = "''params_discriminator_epoch_0009_000.weights''"]
    w1 w2 w3 w4 w5
  have "(\<exists>msg named.
           snd (run example_keras example_sampler stale_rank_os ?cw example_data
                  example_world) = Inl (Exception msg)
           \<and> find (\<lambda>f. glob stale_rank_os (files example_world) f = [])
                 [''params_generator_epoch_0009_000.weights'',
                  ''params_discriminator_epoch_0009_000.weights''] = Some named
           \<and> contains named msg)
        \<and> calls (fst (run example_keras example_sampler stale_rank_os ?cw example_data
                         example_world)) = calls example_world"
    unfolding names by simp
  with w6 w7 start have w8: "contains ''params_discriminator_epoch_0009_000.weights''
      ''Generator weights file params_discriminator_epoch_0009_000.weights not found''"
    and w9: "calls (fst (run example_keras example_sampler stale_rank_os ?cw example_data
                           example_world)) = []"
    by auto
  from o1 o2 o3 o4 o5 o6 o7 w1 w2 w3 w4 w5 w6 w7 w8 w9 show ?thesis
    by blast
qed

subsection \<open>Weight averaging\<close>

lemma collect_map:
  "(\<And>x. x \<in> set xs \<Longrightarrow> f x = Inr (g x)) \<Longrightarrow> collect (map f xs) = Inr (map g xs)"
  by (induction xs) simp_all

lemma foldl_min_same:
  "\<forall>ys \<in> set rest. length ys = n \<Longrightarrow> foldl (\<lambda>m ys. min m (length ys)) n rest = n"
  by (induction rest) simp_all

lemma py_zip_uniform:
  assumes "xss \<noteq> []" and "\<forall>xs \<in> set xss. length xs = n"
  shows "py_zip xss = map (\<lambda>i. map (\<lambda>xs. xs ! i) xss) [0..<n]"
proof -
  from assms(1) obtain xs rest where xss: "xss = xs # rest"
    by (cases xss) auto
  with assms(2) have "length xs = n" and "\<forall>ys \<in> set rest. length ys = n"
    by simp_all
  then have "foldl (\<lambda>m ys. min m (length ys)) (length xs) rest = n"
    by (simp add: foldl_min_same)
  then show ?thesis
    unfolding py_zip_def xss by simp
qed

lemma np_mean_row_uniform:
  assumes "rows \<noteq> []" and "\<forall>row \<in> set rows. length row = k"
  shows "np_mean_row rows
           = Inr (map (\<lambda>j. sum_list (map (\<lambda>row. row ! j) rows) / real (length rows)) [0..<k])"
proof -
  from assms have "length (hd rows) = k"
    by simp
  with assms show ?thesis
    by (simp add: np_mean_row_def np_mean_axis0_def list_all_iff)
qed

lemma same_shape_lengths:
  assumes "same_shape a b"
  shows "length a = length b"
    and "t < length b \<Longrightarrow> length (a ! t) = length (b ! t)"
    and "t < length b \<Longrightarrow> i < length (b ! t) \<Longrightarrow> length (a ! t ! i) = length (b ! t ! i)"
  using assms unfolding same_shape_def by (auto simp: list_all2_conv_all_nth)

lemma mean_pass:
  assumes "ws \<noteq> []" and "\<forall>w \<in> set ws. same_shape w this"
  shows "collect (map (\<lambda>weights_list_tuple.
                         collect (map np_mean_row (py_zip weights_list_tuple)))
                    (py_zip ws))
           = Inr (elementwise_mean ws)"
proof -
  let ?entry = "\<lambda>t i j. sum_list (map (\<lambda>w. w ! t ! i ! j) ws) / real (length ws)"
  let ?row = "\<lambda>t i. map (?entry t i) [0..<length (this ! t ! i)]"
  let ?tensor = "\<lambda>t. map (?row t) [0..<length (this ! t)]"
  have first: "same_shape (hd ws) this"
    using assms by simp
  have outer: "py_zip ws = map (\<lambda>t. map (\<lambda>w. w ! t) ws) [0..<length this]"
    using assms by (intro py_zip_uniform) (auto dest: same_shape_lengths(1))
  have tensor: "collect (map np_mean_row (py_zip (map (\<lambda>w. w ! t) ws))) = Inr (?tensor t)"
    if t: "t < length this" for t
  proof -
    have "py_zip (map (\<lambda>w. w ! t) ws)
            = map (\<lambda>i. map (\<lambda>tn. tn ! i) (map (\<lambda>w. w ! t) ws)) [0..<length (this ! t)]"
      using assms t by (intro py_zip_uniform) (auto dest: same_shape_lengths(2))
    then have inner: "py_zip (map (\<lambda>w. w ! t) ws)
                        = map (\<lambda>i. map (\<lambda>w. w ! t ! i) ws) [0..<length (this ! t)]"
      by (simp add: o_def)
    have "np_mean_row (map (\<lambda>w. w ! t ! i) ws) = Inr (?row t i)"
      if "i < length (this ! t)" for i
      using np_mean_row_uniform [of "map (\<lambda>w. w ! t ! i) ws" "length (this ! t ! i)"]
        assms t that
      by (auto simp: o_def dest: same_shape_lengths(3))
    then have "collect (map (\<lambda>i. np_mean_row (map (\<lambda>w. w ! t ! i) ws)) [0..<length (this ! t)])
                 = Inr (?tensor t)"
      by (intro collect_map) simp
    then show ?thesis
      unfolding inner by (simp add: o_def)
  qed
  have "collect (map (\<lambda>t. collect (map np_mean_row (py_zip (map (\<lambda>w. w ! t) ws))))
                   [0..<length this])
          = Inr (map ?tensor [0..<length this])"
    by (intro collect_map) (simp add: tensor)
  then have computed: "collect (map (\<lambda>weights_list_tuple.
                         collect (map np_mean_row (py_zip weights_list_tuple)))
                    (py_zip ws))
                  = Inr (map ?tensor [0..<length this])"
    unfolding outer by (simp add: o_def)
  have "elementwise_mean ws = map ?tensor [0..<length this]"
    unfolding elementwise_mean_def
    using same_shape_lengths [OF first]
    by (auto intro!: map_cong)
  with computed show ?thesis
    by simp
qed

lemma elementwise_mean_shape:
  assumes "ws \<noteq> []" and "\<forall>w \<in> set ws. same_shape w this"
  shows "same_shape (elementwise_mean ws) this"
proof -
  have "same_shape (hd ws) this"
    using assms by simp
  from same_shape_lengths [OF this] show ?thesis
    unfolding same_shape_def elementwise_mean_def
    by (auto simp: list_all2_conv_all_nth)
qed

lemma blend_one: "length m = length own \<Longrightarrow> blend 1 m own = Inr m"
  by (simp add: blend_def np_add_def map2_map_map list_eq_iff_nth_eq)

lemma blend_pass:
  assumes "same_shape new this"
  shows "collect (map (\<lambda>(new_tensor, this_tensor).
                         collect (map (\<lambda>(mean_row, own_row). blend 1 mean_row own_row)
                                    (zip new_tensor this_tensor)))
                    (zip new this))
           = Inr new"
proof -
  have tensor: "collect (map (\<lambda>(m, own). blend 1 m own) (zip nt tt)) = Inr nt"
    if "list_all2 (\<lambda>r s. length r = length s) nt tt" for nt tt :: tensor
    using that by (induction rule: list_all2_induct) (simp_all add: blend_one)
  from assms show ?thesis
    unfolding same_shape_def
    by (induction rule: list_all2_induct) (simp_all add: tensor)
qed

lemma averaged_weights_one:
  assumes "ws \<noteq> []" and "\<forall>w \<in> set ws. same_shape w this"
  shows "averaged_weights 1 ws this = Inr (elementwise_mean ws)"
  unfolding averaged_weights_def mean_pass [OF assms]
  using blend_pass [OF elementwise_mean_shape [OF assms]] by simp

lemma elementwise_mean_single: "elementwise_mean [a] = a"
  by (simp add: elementwise_mean_def map_nth)

lemma elementwise_mean_pair:
  assumes "same_shape a b" and "t < length a" and "i < length (a ! t)"
    and "j < length (a ! t ! i)"
  shows "elementwise_mean [a, b] ! t ! i ! j = (a ! t ! i ! j + b ! t ! i ! j) / 2"
  using assms by (simp add: elementwise_mean_def)

lemma load_ranks_present:
  "\<forall>rank \<in> set ranks. glob OS fs (checkpoint_name pfx e (int rank) ''.weights'') \<noteq> [] \<Longrightarrow>
     snd (load_ranks OS fs pfx e ranks current acc)
       = Inr (acc @ map (\<lambda>rank. read_weights OS fs (checkpoint_name pfx e (int rank) ''.weights''))
                      ranks)"
  by (induction ranks arbitrary: current acc) (simp_all add: Let_def)

lemma average_model_one:
  assumes "0 < workers"
    and "\<forall>r < workers. glob OS fs (checkpoint_name pfx e (int r) ''.weights'') \<noteq> []
           \<and> same_shape (read_weights OS fs (checkpoint_name pfx e (int r) ''.weights'')) this"
  shows "average_model OS fs 1 pfx e workers this
           = (elementwise_mean
                (map (\<lambda>r. read_weights OS fs (checkpoint_name pfx e (int r) ''.weights''))
                   [0..<workers]),
              Inr ())"
proof -
  let ?all = "map (\<lambda>r. read_weights OS fs (checkpoint_name pfx e (int r) ''.weights''))
                [0..<workers]"
  from assms(2) load_ranks_present [of "[0..<workers]" OS fs pfx e this "[]"]
  have loaded: "snd (load_ranks OS fs pfx e [0..<workers] this []) = Inr ?all"
    by simp
  from assms have "?all \<noteq> []" and "\<forall>w \<in> set ?all. same_shape w this"
    by auto
  then have "averaged_weights 1 ?all this = Inr (elementwise_mean ?all)"
    by (rule averaged_weights_one)
  with loaded show ?thesis
    by (cases "load_ranks OS fs pfx e [0..<workers] this []") (simp add: average_model_def)
qed

lemma same_shape_refl: "same_shape a a"
  by (simp add: same_shape_def list_all2_conv_all_nth)

lemma load_checkpoint_weights_own:
  fixes w :: "('o, 'r, 'img, 'fs) world"
  assumes "load_weights cfg \<or> load_model cfg" and "last_epoch > - 1"
    and "(if \<not> load_model cfg
          then getLastEpoch OS (files w) (d_pfx cfg @ ''*.weights'')
          else Inr last_epoch) = Inr target"
    and "glob OS (files w)
           (checkpoint_name (g_pfx cfg) target (rank_to_load cfg) ''.weights'') \<noteq> []"
    and "glob OS (files w)
           (checkpoint_name (d_pfx cfg) target (rank_to_load cfg) ''.weights'') \<noteq> []"
    and "weights_averaging_coeff cfg = 0"
  shows "snd (load_checkpoint_weights OS cfg last_epoch w) = Inr target
         \<and> generator_weights (nets (fst (load_checkpoint_weights OS cfg last_epoch w)))
             = read_weights OS (files w)
                 (checkpoint_name (g_pfx cfg) target (rank_to_load cfg) ''.weights'')
         \<and> discriminator_weights (nets (fst (load_checkpoint_weights OS cfg last_epoch w)))
             = read_weights OS (files w)
                 (checkpoint_name (d_pfx cfg) target (rank_to_load cfg) ''.weights'')"
  using assms(1,2,4,5,6) unfolding load_checkpoint_weights_def assms(3)
  by (simp add: Let_def)

lemma load_checkpoint_weights_mean:
  fixes w :: "('o, 'r, 'img, 'fs) world" and cfg :: config and target :: int
  defines "gfile \<equiv> \<lambda>r. checkpoint_name (g_pfx cfg) target r ''.weights''"
  defines "dfile \<equiv> \<lambda>r. checkpoint_name (d_pfx cfg) target r ''.weights''"
  assumes "load_weights cfg \<or> load_model cfg" and "last_epoch > - 1"
    and "(if \<not> load_model cfg
          then getLastEpoch OS (files w) (d_pfx cfg @ ''*.weights'')
          else Inr last_epoch) = Inr target"
    and "glob OS (files w) (gfile (rank_to_load cfg)) \<noteq> []"
    and "glob OS (files w) (dfile (rank_to_load cfg)) \<noteq> []"
    and "weights_averaging_coeff cfg = 1" and "0 < hvd_size cfg"
    and "\<forall>r < hvd_size cfg.
           glob OS (files w) (gfile (int r)) \<noteq> []
           \<and> glob OS (files w) (dfile (int r)) \<noteq> []
           \<and> same_shape (read_weights OS (files w) (gfile (int r)))
                 (read_weights OS (files w) (gfile (rank_to_load cfg)))
           \<and> same_shape (read_weights OS (files w) (dfile (int r)))
                 (read_weights OS (files w) (dfile (rank_to_load cfg)))"
  shows "snd (load_checkpoint_weights OS cfg last_epoch w) = Inr target
         \<and> generator_weights (nets (fst (load_checkpoint_weights OS cfg last_epoch w)))
             = elementwise_mean
                 (map (\<lambda>r. read_weights OS (files w) (gfile (int r))) [0..<hvd_size cfg])
         \<and> discriminator_weights (nets (fst (load_checkpoint_weights OS cfg last_epoch w)))
             = elementwise_mean
                 (map (\<lambda>r. read_weights OS (files w) (dfile (int r))) [0..<hvd_size cfg])"
proof -
  have gen: "average_model OS (files w) 1 (g_pfx cfg) target (hvd_size cfg)
               (read_weights OS (files w) (gfile (rank_to_load cfg)))
             = (elementwise_mean
                  (map (\<lambda>r. read_weights OS (files w) (gfile (int r))) [0..<hvd_size cfg]),
                Inr ())"
    unfolding gfile_def using assms(9,10)
    by (intro average_model_one) (simp_all add: gfile_def)
  have disc: "average_model OS (files w) 1 (d_pfx cfg) target (hvd_size cfg)
               (read_weights OS (files w) (dfile (rank_to_load cfg)))
             = (elementwise_mean
                  (map (\<lambda>r. read_weights OS (files w) (dfile (int r))) [0..<hvd_size cfg]),
                Inr ())"
    unfolding dfile_def using assms(9,10)
    by (intro average_model_one) (simp_all add: dfile_def)
  show ?thesis
    using assms(3,4,6,7,8) gen disc
    unfolding load_checkpoint_weights_def assms(5) gfile_def dfile_def
    by (simp add: Let_def)
qed

lemma same_shape_common: "same_shape a c \<Longrightarrow> same_shape b c \<Longrightarrow> same_shape a b"
  unfolding same_shape_def by (auto simp: list_all2_conv_all_nth)

text \<open>
  C5. The weights stage of a resume, once it is entered, has found its epoch and has the
  worker's own two weights files. With the averaging coefficient 0 the stage ends
  normally and the generator and the discriminator hold the weights read from the
  worker's own files; no file of another worker is asked for. With the coefficient 1,
  every worker's two files present and their weights of the shape of the worker's own,
  the stage ends normally and each model holds the elementwise arithmetic mean of the
  weights of all workers for that epoch. Hence a single worker gets its own weights
  back, and with two workers every entry of the installed weights is half the sum of
  the two workers' entries. Weights are tensors of real numbers: rounding is not
  modelled.
\<close>

theorem weight_averaging:
  fixes w :: "('o, 'r, 'img, 'fs) world" and OS :: "('fs, 'o) os" and cfg :: config
    and last_epoch target :: int
  defines "own \<equiv> rank_to_load cfg"
  defines "generator_file \<equiv> \<lambda>r. checkpoint_name (g_pfx cfg) target r ''.weights''"
  defines "discriminator_file \<equiv> \<lambda>r. checkpoint_name (d_pfx cfg) target r ''.weights''"
  defines "checkpointed \<equiv> read_weights OS (files w)"
  defines "restored \<equiv> nets (fst (load_checkpoint_weights OS cfg last_epoch w))"
  defines "everyone \<equiv>
             (\<forall>r < hvd_size cfg.
                glob OS (files w) (generator_file (int r)) \<noteq> []
                \<and> glob OS (files w) (discriminator_file (int r)) \<noteq> []
                \<and> same_shape (checkpointed (generator_file (int r)))
                      (checkpointed (generator_file own))
                \<and> same_shape (checkpointed (discriminator_file (int r)))
                      (checkpointed (discriminator_file own)))"
  assumes active: "load_weights cfg \<or> load_model cfg" "last_epoch > - 1"
    and found: "(if \<not> load_model cfg
                 then getLastEpoch OS (files w) (d_pfx cfg @ ''*.weights'')
                 else Inr last_epoch) = Inr target"
    and present: "glob OS (files w) (generator_file own) \<noteq> []"
                 "glob OS (files w) (discriminator_file own) \<noteq> []"
  shows "(weights_averaging_coeff cfg = 0
          \<longrightarrow> snd (load_checkpoint_weights OS cfg last_epoch w) = Inr target
              \<and> generator_weights restored = checkpointed (generator_file own)
              \<and> discriminator_weights restored = checkpointed (discriminator_file own))
         \<and> (weights_averaging_coeff cfg = 1 \<and> 0 < hvd_size cfg \<and> everyone
             \<longrightarrow> snd (load_checkpoint_weights OS cfg last_epoch w) = Inr target
                 \<and> generator_weights restored
                     = elementwise_mean
                         (map (\<lambda>r. checkpointed (generator_file (int r))) [0..<hvd_size cfg])
                 \<and> discriminator_weights restored
                     = elementwise_mean
                         (map (\<lambda>r. checkpointed (discriminator_file (int r)))
                            [0..<hvd_size cfg]))
         \<and> (weights_averaging_coeff cfg = 1 \<and> hvd_size cfg = 1 \<and> own = 0
             \<longrightarrow> snd (load_checkpoint_weights OS cfg last_epoch w) = Inr target
                 \<and> generator_weights restored = checkpointed (generator_file own)
                 \<and> discriminator_weights restored = checkpointed (discriminator_file own))
         \<and> (weights_averaging_coeff cfg = 1 \<and> hvd_size cfg = 2 \<and> everyone
             \<longrightarrow> same_shape (generator_weights restored) (checkpointed (generator_file 0))
                 \<and> (\<forall>t < length (checkpointed (generator_file 0)).
                      \<forall>i < length (checkpointed (generator_file 0) ! t).
                        \<forall>j < length (checkpointed (generator_file 0) ! t ! i).
                          generator_weights restored ! t ! i ! j
                            = (checkpointed (generator_file 0) ! t ! i ! j
                               + checkpointed (generator_file 1) ! t ! i ! j) / 2)
                 \<and> same_shape (discriminator_weights restored)
                       (checkpointed (discriminator_file 0))
                 \<and> (\<forall>t < length (checkpointed (discriminator_file 0)).
                      \<forall>i < length (checkpointed (discriminator_file 0) ! t).
                        \<forall>j < length (checkpointed (discriminator_file 0) ! t ! i).
                          discriminator_weights restored ! t ! i ! j
                            = (checkpointed (discriminator_file 0) ! t ! i ! j
                               + checkpointed (discriminator_file 1) ! t ! i ! j) / 2))"
proof -
  have mean: "snd (load_checkpoint_weights OS cfg last_epoch w) = Inr target
      \<and> generator_weights restored
          = elementwise_mean
              (map (\<lambda>r. checkpointed (generator_file (int r))) [0..<hvd_size cfg])
      \<and> discriminator_weights restored
          = elementwise_mean
              (map (\<lambda>r. checkpointed (discriminator_file (int r))) [0..<hvd_size cfg])"
    if "weights_averaging_coeff cfg = 1" and "0 < hvd_size cfg" and everyone
    using load_checkpoint_weights_mean [OF active found] present that
    unfolding everyone_def restored_def checkpointed_def generator_file_def
      discriminator_file_def own_def
    by simp
  have zero: "weights_averaging_coeff cfg = 0
          \<longrightarrow> snd (load_checkpoint_weights OS cfg last_epoch w) = Inr target
              \<and> generator_weights restored = checkpointed (generator_file own)
              \<and> discriminator_weights restored = checkpointed (discriminator_file own)"
    using load_checkpoint_weights_own [OF active found] present
    unfolding restored_def checkpointed_def generator_file_def discriminator_file_def own_def
    by simp
  have single: "snd (load_checkpoint_weights OS cfg last_epoch w) = Inr target
      \<and> generator_weights restored = checkpointed (generator_file own)
      \<and> discriminator_weights restored = checkpointed (discriminator_file own)"
    if one: "weights_averaging_coeff cfg = 1" and size: "hvd_size cfg = 1" and rank: "own = 0"
  proof -
    from present size rank have everyone
      unfolding everyone_def by (simp add: same_shape_refl)
    from mean [OF one _ this] size rank show ?thesis
      by (simp add: elementwise_mean_single)
  qed
  have pair: "same_shape (elementwise_mean [a, b]) a
      \<and> (\<forall>t < length a. \<forall>i < length (a ! t). \<forall>j < length (a ! t ! i).
            elementwise_mean [a, b] ! t ! i ! j = (a ! t ! i ! j + b ! t ! i ! j) / 2)"
    if "same_shape a c" and "same_shape b c" for a b c :: weights
  proof -
    from that have ab: "same_shape a b"
      by (rule same_shape_common)
    from that(2,1) have ba: "same_shape b a"
      by (rule same_shape_common)
    from ba have "\<forall>x \<in> set [a, b]. same_shape x a"
      by (simp add: same_shape_refl)
    then have "same_shape (elementwise_mean [a, b]) a"
      by (intro elementwise_mean_shape) simp_all
    with elementwise_mean_pair [OF ab] show ?thesis
      by simp
  qed
  have two: "same_shape (generator_weights restored) (checkpointed (generator_file 0))
      \<and> (\<forall>t < length (checkpointed (generator_file 0)).
           \<forall>i < length (checkpointed (generator_file 0) ! t).
             \<forall>j < length (checkpointed (generator_file 0) ! t ! i).
               generator_weights restored ! t ! i ! j
                 = (checkpointed (generator_file 0) ! t ! i ! j
                    + checkpointed (generator_file 1) ! t ! i ! j) / 2)
      \<and> same_shape (discriminator_weights restored) (checkpointed (discriminator_file 0))
      \<and> (\<forall>t < length (checkpointed (discriminator_file 0)).
           \<forall>i < length (checkpointed (discriminator_file 0) ! t).
             \<forall>j < length (checkpointed (discriminator_file 0) ! t ! i).
               discriminator_weights restored ! t ! i ! j
                 = (checkpointed (discriminator_file 0) ! t ! i ! j
                    + checkpointed (discriminator_file 1) ! t ! i ! j) / 2)"
    if one: "weights_averaging_coeff cfg = 1" and size: "hvd_size cfg = 2" and all: everyone
  proof -
    have ranks: "[0..<hvd_size cfg] = [0, 1]"
      unfolding size by (simp add: numeral_2_eq_2 upt_rec)
    from mean [OF one _ all] size
    have gen: "generator_weights restored
                 = elementwise_mean [checkpointed (generator_file 0),
                                     checkpointed (generator_file 1)]"
      and disc: "discriminator_weights restored
                   = elementwise_mean [checkpointed (discriminator_file 0),
                                       checkpointed (discriminator_file 1)]"
      unfolding ranks by simp_all
    from all size
    have "same_shape (checkpointed (generator_file 0)) (checkpointed (generator_file own))"
      and "same_shape (checkpointed (generator_file 1)) (checkpointed (generator_file own))"
      and "same_shape (checkpointed (discriminator_file 0))
             (checkpointed (discriminator_file own))"
      and "same_shape (checkpointed (discriminator_file 1))
             (checkpointed (discriminator_file own))"
      unfolding everyone_def by (auto dest: spec [of _ 0] spec [of _ 1])
    then show ?thesis
      unfolding gen disc using pair by blast
  qed
  from zero mean single two show ?thesis
    by blast
qed

theorem weight_averaging_witness:
  "load_weights (example_config\<lparr>load_weights := True\<rparr>)
   \<and> weights_averaging_coeff (example_config\<lparr>load_weights := True\<rparr>) = 0
   \<and> getLastEpoch two_worker_os (files example_world)
         ''params_discriminator_epoch_*.weights'' = Inr 7
   \<and> read_weights two_worker_os (files example_world)
         ''params_generator_epoch_0007_000.weights'' = [[[1, 2], [3, 4]], [[10]]]
   \<and> read_weights two_worker_os (files example_world)
         ''params_generator_epoch_0007_001.weights'' = [[[3, 4], [5, 6]], [[20]]]
   \<and> read_weights two_worker_os (files example_world)
         ''params_discriminator_epoch_0007_000.weights'' = [[[0]]]
   \<and> read_weights two_worker_os (files example_world)
         ''params_discriminator_epoch_0007_001.weights'' = [[[2]]]
   \<and> generator_weights (nets (fst (load_checkpoint_weights two_worker_os
         (example_config\<lparr>load_weights := True\<rparr>) 7 example_world)))
       = [[[1, 2], [3, 4]], [[10]]]
   \<and> discriminator_weights (nets (fst (load_checkpoint_weights two_worker_os
         (example_config\<lparr>load_weights := True\<rparr>) 7 example_world)))
       = [[[0]]]
   \<and> weights_averaging_coeff
         (example_config\<lparr>load_weights := True, weights_averaging_coeff := 1, hvd_size := 2\<rparr>)
       = 1
   \<and> hvd_size
         (example_config\<lparr>load_weights := True, weights_averaging_coeff := 1, hvd_size := 2\<rparr>)
       = 2
   \<and> snd (load_checkpoint_weights two_worker_os
         (example_config\<lparr>load_weights := True, weights_averaging_coeff := 1, hvd_size := 2\<rparr>)
         7 example_world) = Inr 7
   \<and> generator_weights (nets (fst (load_checkpoint_weights two_worker_os
         (example_config\<lparr>load_weights := True, weights_averaging_coeff := 1, hvd_size := 2\<rparr>)
         7 example_world)))
       = [[[2, 3], [4, 5]], [[15]]]
   \<and> discriminator_weights (nets (fst (load_checkpoint_weights two_worker_os
         (example_config\<lparr>load_weights := True, weights_averaging_coeff := 1, hvd_size := 2\<rparr>)
         7 example_world)))
       = [[[1]]]
   \<and> hvd_size (example_config\<lparr>load_weights := True, weights_averaging_coeff := 1\<rparr>) = 1
   \<and> rank_to_load (example_config\<lparr>load_weights := True, weights_averaging_coeff := 1\<rparr>) = 0
   \<and> generator_weights (nets (fst (load_checkpoint_weights two_worker_os
         (example_config\<lparr>load_weights := True, weights_averaging_coeff := 1\<rparr>)
         7 example_world)))
       = [[[1, 2], [3, 4]], [[10]]]
   \<and> discriminator_weights (nets (fst (load_checkpoint_weights two_worker_os
         (example_config\<lparr>load_weights := True, weights_averaging_coeff := 1\<rparr>)
         7 example_world)))
       = [[[0]]]"
proof -
  let ?c0 = "example_config\<lparr>load_weights := True\<rparr>"
  let ?c1 = "example_config\<lparr>load_weights := True, weights_averaging_coeff := 1\<rparr>"
  let ?c2 = "example_config\<lparr>load_weights := True, weights_averaging_coeff := 1,
                             hvd_size := 2\<rparr>"
  let ?fs = "files example_world"
  let ?stage = "\<lambda>cfg. load_checkpoint_weights two_worker_os cfg 7 example_world"
  have late: "(7::int) > - 1"
    by simp
  have files:
    "read_weights two_worker_os ?fs ''params_generator_epoch_0007_000.weights''
       = [[[1, 2], [3, 4]], [[10]]]"
    "read_weights two_worker_os ?fs ''params_generator_epoch_0007_001.weights''
       = [[[3, 4], [5, 6]], [[20]]]"
    "read_weights two_worker_os ?fs ''params_discriminator_epoch_0007_000.weights'' = [[[0]]]"
    "read_weights two_worker_os ?fs ''params_discriminator_epoch_0007_001.weights'' = [[[2]]]"
    by (simp_all add: two_worker_os_def)
  have newest: "getLastEpoch two_worker_os ?fs ''params_discriminator_epoch_*.weights''
                  = Inr 7"
    by code_simp
  have a0: "load_weights ?c0 \<or> load_model ?c0"
    and a1: "load_weights ?c1 \<or> load_model ?c1"
    and a2: "load_weights ?c2 \<or> load_model ?c2"
    and l0: "load_weights ?c0"
    by simp_all
  have coeff: "weights_averaging_coeff ?c0 = 0" "weights_averaging_coeff ?c1 = 1"
    "weights_averaging_coeff ?c2 = 1"
    and workers: "hvd_size ?c1 = 1" "hvd_size ?c2 = 2"
    and rank: "rank_to_load ?c1 = 0"
    by (simp_all add: example_config_def rank_to_load_def)
  have found:
    "(if \<not> load_model ?c0 then getLastEpoch two_worker_os ?fs (d_pfx ?c0 @ ''*.weights'')
      else Inr 7) = Inr 7"
    "(if \<not> load_model ?c1 then getLastEpoch two_worker_os ?fs (d_pfx ?c1 @ ''*.weights'')
      else Inr 7) = Inr 7"
    "(if \<not> load_model ?c2 then getLastEpoch two_worker_os ?fs (d_pfx ?c2 @ ''*.weights'')
      else Inr 7) = Inr 7"
    by code_simp+
  have names:
    "checkpoint_name (g_pfx ?c0) 7 (rank_to_load ?c0) ''.weights''
       = ''params_generator_epoch_0007_000.weights''"
    "checkpoint_name (d_pfx ?c0) 7 (rank_to_load ?c0) ''.weights''
       = ''params_discriminator_epoch_0007_000.weights''"
    "checkpoint_name (g_pfx ?c1) 7 (rank_to_load ?c1) ''.weights''
       = ''params_generator_epoch_0007_000.weights''"
    "checkpoint_name (d_pfx ?c1) 7 (rank_to_load ?c1) ''.weights''
       = ''params_discriminator_epoch_0007_000.weights''"
    "checkpoint_name (g_pfx ?c2) 7 (rank_to_load ?c2) ''.weights''
       = ''params_generator_epoch_0007_000.weights''"
    "checkpoint_name (d_pfx ?c2) 7 (rank_to_load ?c2) ''.weights''
       = ''params_discriminator_epoch_0007_000.weights''"
    "checkpoint_name (g_pfx ?c2) 7 (int 0) ''.weights''
       = ''params_generator_epoch_0007_000.weights''"
    "checkpoint_name (d_pfx ?c2) 7 (int 0) ''.weights''
       = ''params_discriminator_epoch_0007_000.weights''"
    "checkpoint_name (g_pfx ?c2) 7 (int 1) ''.weights''
       = ''params_generator_epoch_0007_001.weights''"
    "checkpoint_name (d_pfx ?c2) 7 (int 1) ''.weights''
       = ''params_discriminator_epoch_0007_001.weights''"
    by code_simp+
  have there:
    "glob two_worker_os ?fs ''params_generator_epoch_0007_000.weights'' \<noteq> []"
    "glob two_worker_os ?fs ''params_discriminator_epoch_0007_000.weights'' \<noteq> []"
    "glob two_worker_os ?fs ''params_generator_epoch_0007_001.weights'' \<noteq> []"
    "glob two_worker_os ?fs ''params_discriminator_epoch_0007_001.weights'' \<noteq> []"
    by (simp_all add: two_worker_os_def)
  have shapes:
    "same_shape [[[1, 2], [3, 4]], [[10]]] [[[1, 2], [3, 4]], [[10::real]]]"
    "same_shape [[[3, 4], [5, 6]], [[20]]] [[[1, 2], [3, 4]], [[10::real]]]"
    "same_shape [[[0]]] [[[0::real]]]"
    "same_shape [[[2]]] [[[0::real]]]"
    by (simp_all add: same_shape_def)
  have everyone: "\<forall>r < hvd_size ?c2.
      glob two_worker_os ?fs (checkpoint_name (g_pfx ?c2) 7 (int r) ''.weights'') \<noteq> []
      \<and> glob two_worker_os ?fs (checkpoint_name (d_pfx ?c2) 7 (int r) ''.weights'') \<noteq> []
      \<and> same_shape
            (read_weights two_worker_os ?fs
               (checkpoint_name (g_pfx ?c2) 7 (int r) ''.weights''))
            (read_weights two_worker_os ?fs
               (checkpoint_name (g_pfx ?c2) 7 (rank_to_load ?c2) ''.weights''))
      \<and> same_shape
            (read_weights two_worker_os ?fs
               (checkpoint_name (d_pfx ?c2) 7 (int r) ''.weights''))
            (read_weights two_worker_os ?fs
               (checkpoint_name (d_pfx ?c2) 7 (rank_to_load ?c2) ''.weights''))"
  proof (intro allI impI)
    fix r :: nat
    assume "r < hvd_size ?c2"
    with workers consider "r = 0" | "r = 1"
      by force
    then show "glob two_worker_os ?fs (checkpoint_name (g_pfx ?c2) 7 (int r) ''.weights'') \<noteq> []
      \<and> glob two_worker_os ?fs (checkpoint_name (d_pfx ?c2) 7 (int r) ''.weights'') \<noteq> []
      \<and> same_shape
            (read_weights two_worker_os ?fs
               (checkpoint_name (g_pfx ?c2) 7 (int r) ''.weights''))
            (read_weights two_worker_os ?fs
               (checkpoint_name (g_pfx ?c2) 7 (rank_to_load ?c2) ''.weights''))
      \<and> same_shape
            (read_weights two_worker_os ?fs
               (checkpoint_name (d_pfx ?c2) 7 (int r) ''.weights''))
            (read_weights two_worker_os ?fs
               (checkpoint_name (d_pfx ?c2) 7 (rank_to_load ?c2) ''.weights''))"
    proof cases
      case 1
      show ?thesis
        unfolding 1 names files using there shapes by blast
    next
      case 2
      show ?thesis
        unfolding 2 names files using there shapes by blast
    qed
  qed
  have ranks: "[0..<hvd_size ?c2] = [0, 1]"
    unfolding workers by (simp add: numeral_2_eq_2 upt_rec)
  have means:
    "elementwise_mean [[[[1, 2], [3, 4]], [[10]]], [[[3, 4], [5, 6]], [[20]]]]
       = [[[2, 3], [4, 5]], [[15]]]"
    "elementwise_mean [[[[0]]], [[[2]]]] = [[[1]]]"
    by (simp_all add: elementwise_mean_def numeral_2_eq_2 upt_rec)
  from weight_averaging [where OS = two_worker_os and cfg = ?c0 and last_epoch = 7
      and target = 7 and w = example_world, OF a0 late found(1)] there coeff(1)
  have r0: "generator_weights (nets (fst (?stage ?c0))) = [[[1, 2], [3, 4]], [[10]]]"
    "discriminator_weights (nets (fst (?stage ?c0))) = [[[0]]]"
    unfolding names files by blast+
  from weight_averaging [where OS = two_worker_os and cfg = ?c2 and last_epoch = 7
      and target = 7 and w = example_world, OF a2 late found(3)] there coeff(3) workers(2)
    everyone
  have "snd (?stage ?c2) = Inr 7
      \<and> generator_weights (nets (fst (?stage ?c2)))
          = elementwise_mean
              (map (\<lambda>r. read_weights two_worker_os ?fs
                          (checkpoint_name (g_pfx ?c2) 7 (int r) ''.weights''))
                 [0..<hvd_size ?c2])
      \<and> discriminator_weights (nets (fst (?stage ?c2)))
          = elementwise_mean
              (map (\<lambda>r. read_weights two_worker_os ?fs
                          (checkpoint_name (d_pfx ?c2) 7 (int r) ''.weights''))
                 [0..<hvd_size ?c2])"
    unfolding names by simp
  then have r2: "snd (?stage ?c2) = Inr 7"
    "generator_weights (nets (fst (?stage ?c2))) = [[[2, 3], [4, 5]], [[15]]]"
    "discriminator_weights (nets (fst (?stage ?c2))) = [[[1]]]"
    unfolding ranks list.map names files means by blast+
  from weight_averaging [where OS = two_worker_os and cfg = ?c1 and last_epoch = 7
      and target = 7 and w = example_world, OF a1 late found(2)] there coeff(2) workers(1) rank
  have r1: "generator_weights (nets (fst (?stage ?c1))) = [[[1, 2], [3, 4]], [[10]]]"
    "discriminator_weights (nets (fst (?stage ?c1))) = [[[0]]]"
    unfolding names files by blast+
  from l0 coeff workers rank newest files r0 r1 r2 show ?thesis
    by blast
qed

end
